theory Spec2Isabelle
  imports Complex_Main "HOL-Library.Multiset"
begin

section \<open>The movie catalog service\<close>

text \<open>
  A shallow embedding of the route handlers of \<^verbatim>\<open>src/routes/movies.py\<close> and of the
  request schemas of \<^verbatim>\<open>src/schemas/movies.py\<close>.

  Conventions of the embedding:
  \<^item> a Python \<^verbatim>\<open>int\<close> is an \<open>int\<close>; a \<^verbatim>\<open>float\<close> is a \<open>real\<close> (finite values only:
    rounding, infinities and NaN are outside the model);
  \<^item> a \<^verbatim>\<open>datetime.date\<close> is its day number (\<^verbatim>\<open>date.toordinal()\<close>) as an \<open>int\<close>, so that
    adding \<^verbatim>\<open>timedelta(days=365)\<close> is adding 365 (the calendar's upper end is not modelled);
  \<^item> a \<^verbatim>\<open>str\<close> is a \<open>string\<close>, one \<open>char\<close> standing for one character of the Python string;
  \<^item> an attribute that may hold \<^verbatim>\<open>None\<close> is an \<open>option\<close>;
  \<^item> a handler is a function from the session to its outcome and the session afterwards;
    a raised exception is the \<open>Inl\<close> outcome.
\<close>

subsection \<open>Schemas\<close>

datatype MovieStatusEnum = RELEASED | POST_PRODUCTION | IN_PRODUCTION

fun enum_value :: "MovieStatusEnum \<Rightarrow> string" where
  "enum_value RELEASED = ''Released''"
| "enum_value POST_PRODUCTION = ''Post Production''"
| "enum_value IN_PRODUCTION = ''In Production''"

subsection \<open>Failures\<close>

datatype detail =
    NoMoviesFound
  | MovieNotFound
  | MovieAlreadyExists string int

datatype failure =
    HTTPException nat detail
  | MultipleResultsFound
  | RequestValidationError "string list"
  | ValidationError
  | ResponseValidationError
  | IntegrityError

subsection \<open>The relational store\<close>

text \<open>
  Modelled from the spec: the entity classes of \<^verbatim>\<open>database/models.py\<close>, which is not among
  the sources. Section 3 of the specification gives their columns: Genre, Actor and Language
  rows carry an identifier and a name, a Country row an identifier, a code and an optional
  display name, a Movie row an identifier, the seven scalar columns, one country and three
  lists of related rows (held here as identifiers). The handlers assign \<^verbatim>\<open>None\<close> to scalar
  attributes of a movie, so these are \<open>option\<close>s. The constraints the columns carry
  (nullability, uniqueness) are declared in that file too. The rows the create endpoint
  inserts are built from a validated request after the keys were looked up, so its commits
  are taken to succeed; the update endpoint can assign any value, so the constraints the
  store checks at its commit are a parameter \<open>admits\<close> of that handler. The invariants of
  the specification's data model are predicates, assumed where a property depends on them.
\<close>

datatype related_model = GenreModel | ActorModel | LanguageModel

record related_row =
  rel_id :: int
  rel_name :: string

record country_row =
  c_id :: int
  c_code :: string
  c_name :: "string option"

record movie_row =
  m_id :: int
  m_name :: "string option"
  m_date :: "int option"
  m_score :: "real option"
  m_overview :: "string option"
  m_status :: "string option"
  m_budget :: "real option"
  m_revenue :: "real option"
  m_country_id :: int
  m_genre_ids :: "int list"
  m_actor_ids :: "int list"
  m_language_ids :: "int list"

record tables =
  movies :: "movie_row list"
  countries :: "country_row list"
  genres :: "related_row list"
  actors :: "related_row list"
  languages :: "related_row list"

text \<open>
  Modelled from the spec: the session of \<^verbatim>\<open>database/__init__.py\<close> (\<^verbatim>\<open>get_db\<close>), one
  transactional session per request (section 5). \<open>working\<close> is what the transaction sees,
  flushed rows included; \<open>committed\<close> is what the store holds once the request is over.
\<close>

record session =
  committed :: tables
  working :: tables

definition open_session :: "tables \<Rightarrow> session" where
  "open_session t = \<lparr>committed = t, working = t\<rparr>"

definition commit :: "session \<Rightarrow> session" where
  "commit db = db\<lparr>committed := working db\<rparr>"

text \<open>
  Modelled from the spec: the identifier the store assigns to a new row (``unique,
  system-assigned''); here one more than the greatest identifier of the table.
\<close>

definition assigned_id :: "int list \<Rightarrow> int" where
  "assigned_id ids = foldr max ids 0 + 1"

text \<open>\<^verbatim>\<open>Result.scalar_one_or_none()\<close>: no row, the one row, or an exception on several.\<close>

fun scalar_one_or_none :: "'a list \<Rightarrow> failure + 'a option" where
  "scalar_one_or_none [] = Inr None"
| "scalar_one_or_none [x] = Inr (Some x)"
| "scalar_one_or_none (x # y # zs) = Inl MultipleResultsFound"

fun select_related :: "related_model \<Rightarrow> tables \<Rightarrow> related_row list" where
  "select_related GenreModel t = genres t"
| "select_related ActorModel t = actors t"
| "select_related LanguageModel t = languages t"

fun store_related :: "related_model \<Rightarrow> related_row list \<Rightarrow> tables \<Rightarrow> tables" where
  "store_related GenreModel rows t = t\<lparr>genres := rows\<rparr>"
| "store_related ActorModel rows t = t\<lparr>actors := rows\<rparr>"
| "store_related LanguageModel rows t = t\<lparr>languages := rows\<rparr>"

text \<open>\<^verbatim>\<open>instance = model(name=name); db.add(instance); await db.flush()\<close>\<close>

definition add_flush_related :: "related_model \<Rightarrow> string \<Rightarrow> session \<Rightarrow> related_row \<times> session" where
  "add_flush_related model nm db =
     (let rows = select_related model (working db);
          instance = \<lparr>rel_id = assigned_id (map rel_id rows), rel_name = nm\<rparr>
      in (instance, db\<lparr>working := store_related model (rows @ [instance]) (working db)\<rparr>))"

subsection \<open>Helper functions of the routes\<close>

definition get_or_create_related_instance ::
    "session \<Rightarrow> related_model \<Rightarrow> string \<Rightarrow> (failure + related_row) \<times> session" where
  "get_or_create_related_instance db model nm =
     (case scalar_one_or_none (filter (\<lambda>r. rel_name r = nm) (select_related model (working db))) of
        Inl e \<Rightarrow> (Inl e, db)
      | Inr (Some instance) \<Rightarrow> (Inr instance, db)
      | Inr None \<Rightarrow>
          (let (instance, db') = add_flush_related model nm db
           in (Inr instance, db')))"

text \<open>
  The list comprehensions of \<^verbatim>\<open>create_movie\<close>:
  \<^verbatim>\<open>[await get_or_create_related_instance(db, model, name) for name in names]\<close>.
  The first exception ends the comprehension.
\<close>

fun get_or_create_all ::
    "session \<Rightarrow> related_model \<Rightarrow> string list \<Rightarrow> (failure + related_row list) \<times> session" where
  "get_or_create_all db model [] = (Inr [], db)"
| "get_or_create_all db model (nm # nms) =
     (case get_or_create_related_instance db model nm of
        (Inl e, db') \<Rightarrow> (Inl e, db')
      | (Inr instance, db') \<Rightarrow>
          (case get_or_create_all db' model nms of
             (Inl e, db'') \<Rightarrow> (Inl e, db'')
           | (Inr instances, db'') \<Rightarrow> (Inr (instance # instances), db'')))"

text \<open>
  \<^verbatim>\<open>get_movie_by_id\<close>: the movie with its relationships loaded. Modelled from the spec:
  the eager loading of \<^verbatim>\<open>database/models.py\<close>'s relationships, as the rows the movie's
  identifiers refer to.
\<close>

record movie_detail =
  d_movie :: movie_row
  d_country :: "country_row option"
  d_genres :: "related_row list"
  d_actors :: "related_row list"
  d_languages :: "related_row list"

definition load_related :: "related_row list \<Rightarrow> int list \<Rightarrow> related_row list" where
  "load_related rows ids = List.map_filter (\<lambda>i. find (\<lambda>r. rel_id r = i) rows) ids"

definition load_relationships :: "tables \<Rightarrow> movie_row \<Rightarrow> movie_detail" where
  "load_relationships t m =
     \<lparr>d_movie = m,
      d_country = find (\<lambda>c. c_id c = m_country_id m) (countries t),
      d_genres = load_related (genres t) (m_genre_ids m),
      d_actors = load_related (actors t) (m_actor_ids m),
      d_languages = load_related (languages t) (m_language_ids m)\<rparr>"

definition get_movie_by_id :: "int \<Rightarrow> session \<Rightarrow> failure + movie_detail option" where
  "get_movie_by_id movie_id db =
     (case scalar_one_or_none (filter (\<lambda>m. m_id m = movie_id) (movies (working db))) of
        Inl e \<Rightarrow> Inl e
      | Inr None \<Rightarrow> Inr None
      | Inr (Some m) \<Rightarrow> Inr (Some (load_relationships (working db) m)))"

subsection \<open>The movies list endpoint\<close>

record Request =
  url_path :: string

record MovieShortResponse =
  s_id :: int
  s_name :: string
  s_date :: int
  s_score :: real
  s_overview :: string

record MoviesListResponse =
  l_movies :: "MovieShortResponse list"
  prev_page :: "string option"
  next_page :: "string option"
  total_pages :: int
  total_items :: int

text \<open>
  Building \<^verbatim>\<open>MoviesListResponse(movies=movies, ...)\<close> validates each row against
  \<^verbatim>\<open>MovieShortResponse\<close> (\<^verbatim>\<open>from_attributes\<close>), whose fields are all required and not
  optional: a row holding \<^verbatim>\<open>None\<close> in one of them raises a validation error.
\<close>

definition MovieShortResponse_from :: "movie_row \<Rightarrow> MovieShortResponse option" where
  "MovieShortResponse_from m =
     (case (m_name m, m_date m, m_score m, m_overview m) of
        (Some n, Some d, Some s, Some ov) \<Rightarrow>
          Some \<lparr>s_id = m_id m, s_name = n, s_date = d, s_score = s, s_overview = ov\<rparr>
      | _ \<Rightarrow> None)"

definition MoviesListResponse_init ::
    "movie_row list \<Rightarrow> string option \<Rightarrow> string option \<Rightarrow> int \<Rightarrow> int \<Rightarrow> failure + MoviesListResponse" where
  "MoviesListResponse_init ms prev nxt tp ti =
     (if \<forall>m \<in> set ms. MovieShortResponse_from m \<noteq> None
      then Inr \<lparr>l_movies = List.map_filter MovieShortResponse_from ms,
                prev_page = prev, next_page = nxt, total_pages = tp, total_items = ti\<rparr>
      else Inl ValidationError)"

text \<open>\<^verbatim>\<open>str(n)\<close> of an integer, as the f-strings format it.\<close>

fun str_nat :: "nat \<Rightarrow> string" where
  "str_nat n =
     (if n < 10 then [''0123456789'' ! n]
      else str_nat (n div 10) @ [''0123456789'' ! (n mod 10)])"

declare str_nat.simps [simp del]

definition str_int :: "int \<Rightarrow> string" where
  "str_int i = (if i < 0 then CHR ''-'' # str_nat (nat (- i)) else str_nat (nat i))"

text \<open>\<^verbatim>\<open>.order_by(MovieModel.id.desc())\<close>\<close>

definition order_by_id_desc :: "movie_row list \<Rightarrow> movie_row list" where
  "order_by_id_desc ms = rev (sort_key m_id ms)"

text \<open>
  \<^verbatim>\<open>select(MovieModel).order_by(MovieModel.id.desc()).offset(offset).limit(per_page)\<close>,
  executed and read with \<^verbatim>\<open>scalars().all()\<close>.
\<close>

definition movies_query :: "int \<Rightarrow> int \<Rightarrow> session \<Rightarrow> movie_row list" where
  "movies_query offset per_page db =
     take (nat per_page) (drop (nat offset) (order_by_id_desc (movies (working db))))"

definition HTTP_200_OK :: nat where "HTTP_200_OK = 200"
definition HTTP_201_CREATED :: nat where "HTTP_201_CREATED = 201"
definition HTTP_204_NO_CONTENT :: nat where "HTTP_204_NO_CONTENT = 204"
definition HTTP_404_NOT_FOUND :: nat where "HTTP_404_NOT_FOUND = 404"
definition HTTP_409_CONFLICT :: nat where "HTTP_409_CONFLICT = 409"

text \<open>
  The constraints \<^verbatim>\<open>Query(ge=1)\<close> and \<^verbatim>\<open>Query(ge=1, le=20)\<close> of the signature are checked
  before the body runs. \<^verbatim>\<open>math.ceil(total_items / per_page)\<close> is the ceiling of the exact
  quotient.
\<close>

definition get_movies_list ::
    "Request \<Rightarrow> int \<Rightarrow> int \<Rightarrow> session \<Rightarrow> (failure + nat \<times> MoviesListResponse) \<times> session" where
  "get_movies_list request page per_page db =
     (if page < 1 then (Inl (RequestValidationError [''page'']), db)
      else if per_page < 1 \<or> 20 < per_page then (Inl (RequestValidationError [''per_page'']), db)
      else
        let offset = (page - 1) * per_page;
            total_items = int (length (movies (working db)))
        in if total_items = 0 then (Inl (HTTPException HTTP_404_NOT_FOUND NoMoviesFound), db)
           else
             let total_pages = \<lceil>real_of_int total_items / real_of_int per_page\<rceil>;
                 ms = movies_query offset per_page db
             in if ms = [] then (Inl (HTTPException HTTP_404_NOT_FOUND NoMoviesFound), db)
                else
                  let base_url = ''/api/v1/theater/movies/'';
                      prev = (if page > 1
                              then Some (base_url @ ''?page='' @ str_int (page - 1)
                                           @ ''&per_page='' @ str_int per_page)
                              else None);
                      nxt = (if page < total_pages
                             then Some (base_url @ ''?page='' @ str_int (page + 1)
                                          @ ''&per_page='' @ str_int per_page)
                             else None)
                  in (case MoviesListResponse_init ms prev nxt total_pages total_items of
                        Inl e \<Rightarrow> (Inl e, db)
                      | Inr r \<Rightarrow> (Inr (HTTP_200_OK, r), db)))"

subsection \<open>The movie creation endpoint\<close>

record MovieCreateRequest =
  r_name :: string
  r_date :: int
  r_score :: real
  r_overview :: string
  r_status :: MovieStatusEnum
  r_budget :: real
  r_revenue :: real
  r_country :: string
  r_genres :: "string list"
  r_actors :: "string list"
  r_languages :: "string list"

text \<open>\<^verbatim>\<open>country = CountryModel(code=..., name=None); db.add(country); await db.flush()\<close>\<close>

definition add_flush_country :: "string \<Rightarrow> session \<Rightarrow> country_row \<times> session" where
  "add_flush_country code db =
     (let rows = countries (working db);
          country = \<lparr>c_id = assigned_id (map c_id rows), c_code = code, c_name = None\<rparr>
      in (country, db\<lparr>working := (working db)\<lparr>countries := rows @ [country]\<rparr>\<rparr>))"

text \<open>
  \<^verbatim>\<open>db.add(new_movie)\<close>, flushed by the commit that follows. \<^verbatim>\<open>db.refresh(new_movie)\<close>
  reads the committed row back and changes nothing.
\<close>

definition add_movie :: "movie_row \<Rightarrow> session \<Rightarrow> session" where
  "add_movie m db = db\<lparr>working := (working db)\<lparr>movies := movies (working db) @ [m]\<rparr>\<rparr>"

definition create_movie ::
    "MovieCreateRequest \<Rightarrow> session \<Rightarrow> (failure + nat \<times> movie_detail option) \<times> session" where
  "create_movie movie_data db =
     (case scalar_one_or_none
             (filter (\<lambda>m. m_name m = Some (r_name movie_data) \<and> m_date m = Some (r_date movie_data))
                (movies (working db))) of
        Inl e \<Rightarrow> (Inl e, db)
      | Inr (Some duplicate) \<Rightarrow>
          (Inl (HTTPException HTTP_409_CONFLICT
                  (MovieAlreadyExists (r_name movie_data) (r_date movie_data))), db)
      | Inr None \<Rightarrow>
          (case scalar_one_or_none
                  (filter (\<lambda>c. c_code c = r_country movie_data) (countries (working db))) of
             Inl e \<Rightarrow> (Inl e, db)
           | Inr found \<Rightarrow>
               let (country, db1) =
                     (case found of
                        Some c \<Rightarrow> (c, db)
                      | None \<Rightarrow> add_flush_country (r_country movie_data) db)
               in (case get_or_create_all db1 GenreModel (r_genres movie_data) of
                     (Inl e, db2) \<Rightarrow> (Inl e, db2)
                   | (Inr genres_list, db2) \<Rightarrow>
                 (case get_or_create_all db2 ActorModel (r_actors movie_data) of
                     (Inl e, db3) \<Rightarrow> (Inl e, db3)
                   | (Inr actors_list, db3) \<Rightarrow>
                 (case get_or_create_all db3 LanguageModel (r_languages movie_data) of
                     (Inl e, db4) \<Rightarrow> (Inl e, db4)
                   | (Inr languages_list, db4) \<Rightarrow>
                       let new_movie =
                             \<lparr>m_id = assigned_id (map m_id (movies (working db4))),
                              m_name = Some (r_name movie_data),
                              m_date = Some (r_date movie_data),
                              m_score = Some (r_score movie_data),
                              m_overview = Some (r_overview movie_data),
                              m_status = Some (enum_value (r_status movie_data)),
                              m_budget = Some (r_budget movie_data),
                              m_revenue = Some (r_revenue movie_data),
                              m_country_id = c_id country,
                              m_genre_ids = map rel_id genres_list,
                              m_actor_ids = map rel_id actors_list,
                              m_language_ids = map rel_id languages_list\<rparr>;
                           db5 = commit (add_movie new_movie db4)
                       in (case get_movie_by_id (m_id new_movie) db5 of
                             Inl e \<Rightarrow> (Inl e, db5)
                           | Inr created_movie \<Rightarrow>
                               (Inr (HTTP_201_CREATED, created_movie), db5)))))))"

subsection \<open>The movie details endpoint\<close>

text \<open>
  The route declares \<^verbatim>\<open>response_model=MovieDetailResponse\<close>: what the handler returns is
  validated against that schema, whose fields are all required and not optional (the
  country's display name apart). A movie holding \<^verbatim>\<open>None\<close> in a scalar attribute, or without
  its country, fails the validation of the response.
\<close>

record MovieDetailResponse =
  dr_id :: int
  dr_name :: string
  dr_date :: int
  dr_score :: real
  dr_overview :: string
  dr_status :: string
  dr_budget :: real
  dr_revenue :: real
  dr_country :: country_row
  dr_genres :: "related_row list"
  dr_actors :: "related_row list"
  dr_languages :: "related_row list"

definition MovieDetailResponse_from :: "movie_detail \<Rightarrow> MovieDetailResponse option" where
  "MovieDetailResponse_from d =
     (case (m_name (d_movie d), m_date (d_movie d), m_score (d_movie d), m_overview (d_movie d)) of
        (Some n, Some dt, Some sc, Some ov) \<Rightarrow>
          (case (m_status (d_movie d), m_budget (d_movie d), m_revenue (d_movie d), d_country d) of
             (Some st, Some bu, Some re, Some c) \<Rightarrow>
               Some \<lparr>dr_id = m_id (d_movie d), dr_name = n, dr_date = dt, dr_score = sc,
                     dr_overview = ov, dr_status = st, dr_budget = bu, dr_revenue = re,
                     dr_country = c, dr_genres = d_genres d, dr_actors = d_actors d,
                     dr_languages = d_languages d\<rparr>
           | _ \<Rightarrow> None)
      | _ \<Rightarrow> None)"

definition get_movie_details ::
    "int \<Rightarrow> session \<Rightarrow> (failure + nat \<times> MovieDetailResponse) \<times> session" where
  "get_movie_details movie_id db =
     (case get_movie_by_id movie_id db of
        Inl e \<Rightarrow> (Inl e, db)
      | Inr None \<Rightarrow> (Inl (HTTPException HTTP_404_NOT_FOUND MovieNotFound), db)
      | Inr (Some movie) \<Rightarrow>
          (case MovieDetailResponse_from movie of
             None \<Rightarrow> (Inl ResponseValidationError, db)
           | Some response \<Rightarrow> (Inr (HTTP_200_OK, response), db)))"

subsection \<open>The movie deletion endpoint\<close>

datatype Response = Response (status_code: nat) (content: "string option")

text \<open>\<^verbatim>\<open>await db.delete(movie)\<close>: the row of that primary key leaves the table.\<close>

definition db_delete :: "movie_row \<Rightarrow> session \<Rightarrow> session" where
  "db_delete movie db =
     db\<lparr>working := (working db)\<lparr>movies := filter (\<lambda>m. m_id m \<noteq> m_id movie) (movies (working db))\<rparr>\<rparr>"

definition delete_movie :: "int \<Rightarrow> session \<Rightarrow> (failure + Response) \<times> session" where
  "delete_movie movie_id db =
     (case scalar_one_or_none (filter (\<lambda>m. m_id m = movie_id) (movies (working db))) of
        Inl e \<Rightarrow> (Inl e, db)
      | Inr None \<Rightarrow> (Inl (HTTPException HTTP_404_NOT_FOUND MovieNotFound), db)
      | Inr (Some movie) \<Rightarrow>
          (Inr (Response HTTP_204_NO_CONTENT None), commit (db_delete movie db)))"

subsection \<open>The movie update endpoint\<close>

text \<open>
  A field of \<^verbatim>\<open>MovieUpdateRequest\<close> is either not set by the request (\<open>Unset\<close>: left out by
  \<^verbatim>\<open>model_dump(exclude_unset=True)\<close>) or set, to \<^verbatim>\<open>None\<close> or to a value.
\<close>

datatype 'a field = Unset | Provided "'a option"

record MovieUpdateRequest =
  u_name :: "string field"
  u_date :: "int field"
  u_score :: "real field"
  u_overview :: "string field"
  u_status :: "MovieStatusEnum field"
  u_budget :: "real field"
  u_revenue :: "real field"

text \<open>
  \<^verbatim>\<open>if "status" in update_data and update_data["status"]:
      update_data["status"] = update_data["status"].value\<close>
  A member of the enumeration is a non-empty string, hence true.
\<close>

fun status_conversion :: "MovieStatusEnum field \<Rightarrow> string field" where
  "status_conversion Unset = Unset"
| "status_conversion (Provided None) = Provided None"
| "status_conversion (Provided (Some st)) = Provided (Some (enum_value st))"

text \<open>\<^verbatim>\<open>setattr(movie, key, value)\<close> for a key of \<^verbatim>\<open>update_data\<close>; nothing for a key left out.\<close>

fun setattr :: "'a field \<Rightarrow> 'a option \<Rightarrow> 'a option" where
  "setattr Unset old = old"
| "setattr (Provided v) old = v"

definition apply_updates :: "MovieUpdateRequest \<Rightarrow> movie_row \<Rightarrow> movie_row" where
  "apply_updates movie_data movie =
     movie\<lparr>m_name := setattr (u_name movie_data) (m_name movie),
           m_date := setattr (u_date movie_data) (m_date movie),
           m_score := setattr (u_score movie_data) (m_score movie),
           m_overview := setattr (u_overview movie_data) (m_overview movie),
           m_status := setattr (status_conversion (u_status movie_data)) (m_status movie),
           m_budget := setattr (u_budget movie_data) (m_budget movie),
           m_revenue := setattr (u_revenue movie_data) (m_revenue movie)\<rparr>"

text \<open>The attribute changes reach the row of the movie's primary key at the commit.\<close>

definition db_update :: "movie_row \<Rightarrow> session \<Rightarrow> session" where
  "db_update movie db =
     db\<lparr>working := (working db)\<lparr>movies :=
          map (\<lambda>m. if m_id m = m_id movie then movie else m) (movies (working db))\<rparr>\<rparr>"

record MovieUpdateResponse =
  detail_text :: string

text \<open>
  \<^verbatim>\<open>await db.commit()\<close> flushes the changed attributes: the store checks its constraints
  and the commit raises when the row is not admitted.
\<close>

definition update_movie ::
    "(tables \<Rightarrow> bool) \<Rightarrow> int \<Rightarrow> MovieUpdateRequest \<Rightarrow> session
       \<Rightarrow> (failure + nat \<times> MovieUpdateResponse) \<times> session" where
  "update_movie admits movie_id movie_data db =
     (case scalar_one_or_none (filter (\<lambda>m. m_id m = movie_id) (movies (working db))) of
        Inl e \<Rightarrow> (Inl e, db)
      | Inr None \<Rightarrow> (Inl (HTTPException HTTP_404_NOT_FOUND MovieNotFound), db)
      | Inr (Some movie) \<Rightarrow>
          (let db' = db_update (apply_updates movie_data movie) db
           in if admits (working db')
              then (Inr (HTTP_200_OK, \<lparr>detail_text = ''Movie updated successfully.''\<rparr>),
                    commit db')
              else (Inl IntegrityError, db')))"

subsection \<open>Requests\<close>

text \<open>
  Modelled from the spec: the request scope of \<^verbatim>\<open>get_db\<close> (section 5): a request runs its
  handler in a session of its own, and the store keeps what the handler committed.
\<close>

definition serve :: "(session \<Rightarrow> 'r \<times> session) \<Rightarrow> tables \<Rightarrow> 'r \<times> tables" where
  "serve handler t = (let (r, db) = handler (open_session t) in (r, committed db))"

text \<open>
  The body of a create request before validation: the fields of \<^verbatim>\<open>MovieCreateRequest\<close>
  with their JSON types, the status as the string sent. Validation applies the
  constraints the schema declares: \<^verbatim>\<open>constr(max_length=255)\<close>, \<^verbatim>\<open>confloat(ge=0, le=100)\<close>,
  \<^verbatim>\<open>confloat(ge=0)\<close>, membership in \<^verbatim>\<open>MovieStatusEnum\<close> and the validator \<^verbatim>\<open>validate_date\<close>.
  The current date \<^verbatim>\<open>datetime.date.today()\<close> is a parameter.
\<close>

record create_body =
  b_name :: string
  b_date :: int
  b_score :: real
  b_overview :: string
  b_status :: string
  b_budget :: real
  b_revenue :: real
  b_country :: string
  b_genres :: "string list"
  b_actors :: "string list"
  b_languages :: "string list"

definition validate_date :: "int \<Rightarrow> int \<Rightarrow> string + int" where
  "validate_date today v =
     (if v > today + 365 then Inl ''Date cannot be more than one year in the future''
      else Inr v)"

definition MovieStatusEnum_of_value :: "string \<Rightarrow> MovieStatusEnum option" where
  "MovieStatusEnum_of_value s =
     find (\<lambda>st. enum_value st = s) [RELEASED, POST_PRODUCTION, IN_PRODUCTION]"

definition validation_errors :: "int \<Rightarrow> create_body \<Rightarrow> string list" where
  "validation_errors today b =
     (if length (b_name b) \<le> 255 then [] else [''name'']) @
     (case validate_date today (b_date b) of Inl msg \<Rightarrow> [''date''] | Inr v \<Rightarrow> []) @
     (if 0 \<le> b_score b \<and> b_score b \<le> 100 then [] else [''score'']) @
     (case MovieStatusEnum_of_value (b_status b) of None \<Rightarrow> [''status''] | Some st \<Rightarrow> []) @
     (if 0 \<le> b_budget b then [] else [''budget'']) @
     (if 0 \<le> b_revenue b then [] else [''revenue''])"

definition MovieCreateRequest_validate :: "int \<Rightarrow> create_body \<Rightarrow> failure + MovieCreateRequest" where
  "MovieCreateRequest_validate today b =
     (case (validation_errors today b, MovieStatusEnum_of_value (b_status b)) of
        ([], Some st) \<Rightarrow>
          Inr \<lparr>r_name = b_name b, r_date = b_date b, r_score = b_score b,
               r_overview = b_overview b, r_status = st, r_budget = b_budget b,
               r_revenue = b_revenue b, r_country = b_country b, r_genres = b_genres b,
               r_actors = b_actors b, r_languages = b_languages b\<rparr>
      | (errors, _) \<Rightarrow> Inl (RequestValidationError errors))"

text \<open>
  The route \<^verbatim>\<open>POST /movies/\<close>: the framework validates the body against the schema of the
  handler's parameter and calls the handler only with a valid request.
\<close>

definition post_movies ::
    "int \<Rightarrow> create_body \<Rightarrow> session \<Rightarrow> (failure + nat \<times> movie_detail option) \<times> session" where
  "post_movies today b db =
     (case MovieCreateRequest_validate today b of
        Inl e \<Rightarrow> (Inl e, db)
      | Inr movie_data \<Rightarrow> create_movie movie_data db)"

subsection \<open>Invariants of the data model\<close>

text \<open>
  Section 3 of the specification: every movie has a name, a date, a score and an overview
  (\<open>populated\<close>: the fields a list item shows); no two movies share a name and date,
  country codes are unique, and so are the names of genres, of actors and of languages
  (\<open>unique_keys\<close>; as in SQL, a key holding a null conflicts with no other).
\<close>

definition populated :: "movie_row \<Rightarrow> bool" where
  "populated m \<longleftrightarrow>
     m_name m \<noteq> None \<and> m_date m \<noteq> None \<and> m_score m \<noteq> None \<and> m_overview m \<noteq> None"

definition movie_key :: "movie_row \<Rightarrow> string option \<times> int option" where
  "movie_key m = (m_name m, m_date m)"

definition unique_keys :: "tables \<Rightarrow> bool" where
  "unique_keys t \<longleftrightarrow>
     distinct (filter (\<lambda>k. fst k \<noteq> None \<and> snd k \<noteq> None) (map movie_key (movies t))) \<and>
     distinct (map c_code (countries t)) \<and>
     distinct (map rel_name (genres t)) \<and>
     distinct (map rel_name (actors t)) \<and>
     distinct (map rel_name (languages t))"

subsection \<open>Auxiliary notions\<close>

text \<open>
  The path the decorator \<^verbatim>\<open>@router.get("/movies/")\<close> declares for the list route; the
  number a decimal numeral denotes; the store after the attributes of the row \<open>m\<close> were
  updated and committed.
\<close>

definition list_route :: string where
  "list_route = ''/movies/''"

text \<open>
  Modelled from the spec: the routing layer of the application module, which is not among
  the sources (section 6: the paths are prefixed by an external routing layer). The prefix
  is the one the handler's \<^verbatim>\<open>base_url\<close> names, which its comment says must match the path
  of the request.
\<close>

definition mounted_list_path :: string where
  "mounted_list_path = ''/api/v1/theater'' @ list_route"


definition detail_complete :: "tables \<Rightarrow> movie_row \<Rightarrow> bool" where
  "detail_complete t m \<longleftrightarrow> MovieDetailResponse_from (load_relationships t m) \<noteq> None"


definition digit_value :: "char \<Rightarrow> nat" where
  "digit_value c = of_char c - 48"

definition decimal_value :: "string \<Rightarrow> nat" where
  "decimal_value s = foldl (\<lambda>a c. 10 * a + digit_value c) 0 s"

definition updated_tables :: "MovieUpdateRequest \<Rightarrow> movie_row \<Rightarrow> tables \<Rightarrow> tables" where
  "updated_tables movie_data m t =
     t\<lparr>movies := map (\<lambda>x. if m_id x = m_id m then apply_updates movie_data m else x) (movies t)\<rparr>"

subsection \<open>Example data\<close>

definition example_tables :: tables where
  "example_tables =
     \<lparr>movies = [], countries = [],
      genres = [\<lparr>rel_id = 3, rel_name = ''Drama''\<rparr>], actors = [], languages = []\<rparr>"

definition example_movie :: "int \<Rightarrow> string \<Rightarrow> int \<Rightarrow> movie_row" where
  "example_movie i nm d =
     \<lparr>m_id = i, m_name = Some nm, m_date = Some d, m_score = Some 82,
      m_overview = Some ''...'', m_status = Some ''Released'', m_budget = Some 165000000,
      m_revenue = Some 400000000, m_country_id = 1, m_genre_ids = [3], m_actor_ids = [],
      m_language_ids = []\<rparr>"

definition example_catalog :: tables where
  "example_catalog =
     \<lparr>movies = [example_movie 2 ''Dune'' 738085, example_movie 5 ''Alien'' 722590,
                example_movie 4 ''Heat'' 728642],
      countries = [\<lparr>c_id = 1, c_code = ''USA'', c_name = None\<rparr>],
      genres = [\<lparr>rel_id = 3, rel_name = ''Drama''\<rparr>], actors = [], languages = []\<rparr>"

definition example_page1 :: MoviesListResponse where
  "example_page1 =
     \<lparr>l_movies =
        [\<lparr>s_id = 5, s_name = ''Alien'', s_date = 722590, s_score = 82, s_overview = ''...''\<rparr>,
         \<lparr>s_id = 4, s_name = ''Heat'', s_date = 728642, s_score = 82, s_overview = ''...''\<rparr>],
      prev_page = None,
      next_page = Some ''/api/v1/theater/movies/?page=2&per_page=2'',
      total_pages = 2, total_items = 3\<rparr>"

definition example_page2 :: MoviesListResponse where
  "example_page2 =
     \<lparr>l_movies =
        [\<lparr>s_id = 2, s_name = ''Dune'', s_date = 738085, s_score = 82, s_overview = ''...''\<rparr>],
      prev_page = Some ''/api/v1/theater/movies/?page=1&per_page=2'',
      next_page = None,
      total_pages = 2, total_items = 3\<rparr>"



definition example_today :: int where
  "example_today = 738000"

definition example_body :: create_body where
  "example_body =
     \<lparr>b_name = ''Dune'', b_date = 738085, b_score = 82, b_overview = ''...'',
      b_status = ''Released'', b_budget = 165000000, b_revenue = 400000000,
      b_country = ''USA'', b_genres = [''Sci-Fi''], b_actors = [''Actor A''],
      b_languages = [''English'']\<rparr>"

definition example_request :: MovieCreateRequest where
  "example_request =
     \<lparr>r_name = ''Dune'', r_date = 738085, r_score = 10, r_overview = ''another'',
      r_status = IN_PRODUCTION, r_budget = 1, r_revenue = 0, r_country = ''CAN'',
      r_genres = [''Sci-Fi'', ''Drama''], r_actors = [''Actor A''], r_languages = [''English'']\<rparr>"

section \<open>Properties\<close>

subsection \<open>The get-or-create resolver\<close>

lemma filter_key_absent:
  "k \<notin> f ` set xs \<Longrightarrow> filter (\<lambda>r. f r = k) xs = []"
  by (induction xs) auto

lemma filter_key_unique:
  "distinct (map f xs) \<Longrightarrow> x \<in> set xs \<Longrightarrow> filter (\<lambda>r. f r = f x) xs = [x]"
proof (induction xs)
  case Nil
  then show ?case by simp
next
  case (Cons y ys)
  show ?case
  proof (cases "y = x")
    case True
    with Cons.prems have "f x \<notin> f ` set ys" by auto
    then have "filter (\<lambda>r. f r = f x) ys = []" by (rule filter_key_absent)
    with True show ?thesis by simp
  next
    case False
    with Cons.prems have "x \<in> set ys" "f y \<noteq> f x" by auto
    with Cons show ?thesis by simp
  qed
qed

lemma assigned_id_greater: "i \<in> set ids \<Longrightarrow> i < assigned_id ids"
  by (induction ids) (auto simp: assigned_id_def)

lemma assigned_id_fresh: "assigned_id ids \<notin> set ids"
  using assigned_id_greater by blast

lemma select_store_related [simp]:
  "select_related model (store_related model rows t) = rows"
  by (cases model) simp_all

lemma get_or_create_existing:
  assumes "distinct (map rel_name (select_related model (working db)))"
    and "r \<in> set (select_related model (working db))"
  shows "get_or_create_related_instance db model (rel_name r) = (Inr r, db)"
  using filter_key_unique [OF assms]
  by (simp add: get_or_create_related_instance_def)

lemma get_or_create_absent:
  assumes "nm \<notin> rel_name ` set (select_related model (working db))"
  shows "get_or_create_related_instance db model nm =
           (Inr (fst (add_flush_related model nm db)), snd (add_flush_related model nm db))"
  using filter_key_absent [OF assms]
  by (simp add: get_or_create_related_instance_def split: prod.splits)

lemma get_or_create_all_replicate:
  assumes "distinct (map rel_name (select_related model (working db)))"
    and "r \<in> set (select_related model (working db))"
  shows "get_or_create_all db model (replicate n (rel_name r)) = (Inr (replicate n r), db)"
  by (induction n) (simp_all add: get_or_create_existing [OF assms])

lemma add_flush_related_rows:
  "select_related model (working (snd (add_flush_related model nm db))) =
     select_related model (working db) @ [fst (add_flush_related model nm db)]"
  by (simp add: add_flush_related_def Let_def)

lemma add_flush_related_name: "rel_name (fst (add_flush_related model nm db)) = nm"
  by (simp add: add_flush_related_def Let_def)

lemma add_flush_related_id:
  "rel_id (fst (add_flush_related model nm db)) \<notin> rel_id ` set (select_related model (working db))"
  using assigned_id_fresh [of "map rel_id (select_related model (working db))"]
  by (simp add: add_flush_related_def Let_def)

lemma add_flush_related_committed:
  "committed (snd (add_flush_related model nm db)) = committed db"
  by (simp add: add_flush_related_def Let_def)

lemma get_or_create_rows:
  assumes "distinct (map rel_name (select_related model (working db)))"
    and "get_or_create_related_instance db model nm = (Inr r, db')"
  shows "rel_name r = nm \<and> r \<in> set (select_related model (working db')) \<and>
         distinct (map rel_name (select_related model (working db'))) \<and>
         committed db' = committed db \<and>
         (if nm \<in> rel_name ` set (select_related model (working db))
          then r \<in> set (select_related model (working db)) \<and> db' = db
          else rel_id r \<notin> rel_id ` set (select_related model (working db)) \<and>
               select_related model (working db') = select_related model (working db) @ [r])"
proof (cases "nm \<in> rel_name ` set (select_related model (working db))")
  case True
  then obtain x where x: "x \<in> set (select_related model (working db))" "rel_name x = nm"
    by auto
  from get_or_create_existing [OF assms(1) x(1)] x(2) assms(2) have "r = x" "db' = db"
    by simp_all
  with x assms(1) True show ?thesis by simp
next
  case False
  from get_or_create_absent [OF False] assms(2)
  have r: "r = fst (add_flush_related model nm db)" and db': "db' = snd (add_flush_related model nm db)"
    by simp_all
  show ?thesis
    using False assms(1) add_flush_related_id [of model nm db]
    by (simp add: r db' add_flush_related_rows add_flush_related_name add_flush_related_committed)
qed

lemma get_or_create_returns:
  assumes "distinct (map rel_name (select_related model (working db)))"
  shows "\<exists>r db'. get_or_create_related_instance db model nm = (Inr r, db')"
proof (cases "nm \<in> rel_name ` set (select_related model (working db))")
  case True
  then obtain x where "x \<in> set (select_related model (working db))" "rel_name x = nm"
    by auto
  with get_or_create_existing [OF assms, of x] show ?thesis by auto
next
  case False
  from get_or_create_absent [OF False] show ?thesis by simp
qed

text \<open>
  Claim C1. In a table whose names are unique, the resolver returns the row of the given
  name when there is one and leaves the session as it is; otherwise it appends exactly one
  row of that name, with an identifier no other row of the table has, and does not commit.
  After the call the table holds exactly one row of that name, and any number of further
  calls for the name in the same transaction return that same row and change nothing.
\<close>

theorem get_or_create_idempotent:
  assumes "distinct (map rel_name (select_related model (working db)))"
  shows "\<exists>r db'.
           get_or_create_related_instance db model nm = (Inr r, db') \<and>
           rel_name r = nm \<and>
           committed db' = committed db \<and>
           (if nm \<in> rel_name ` set (select_related model (working db))
            then r \<in> set (select_related model (working db)) \<and> db' = db
            else rel_id r \<notin> rel_id ` set (select_related model (working db)) \<and>
                 select_related model (working db') = select_related model (working db) @ [r]) \<and>
           filter (\<lambda>x. rel_name x = nm) (select_related model (working db')) = [r] \<and>
           (\<forall>n. get_or_create_all db' model (replicate n nm) = (Inr (replicate n r), db'))"
proof -
  from get_or_create_returns [OF assms] obtain r db'
    where call: "get_or_create_related_instance db model nm = (Inr r, db')"
    by blast
  note props = get_or_create_rows [OF assms call]
  from props have d': "distinct (map rel_name (select_related model (working db')))"
    and r': "r \<in> set (select_related model (working db'))" and nm: "rel_name r = nm"
    by simp_all
  have one: "filter (\<lambda>x. rel_name x = nm) (select_related model (working db')) = [r]"
    using filter_key_unique [OF d' r'] nm by simp
  have again: "get_or_create_all db' model (replicate n nm) = (Inr (replicate n r), db')" for n
    using get_or_create_all_replicate [OF d' r', of n] nm by simp
  from call props one again show ?thesis by auto
qed

theorem get_or_create_idempotent_witness:
  "distinct (map rel_name (select_related GenreModel (working (open_session example_tables)))) \<and>
   (\<exists>r db'.
      get_or_create_related_instance (open_session example_tables) GenreModel ''Sci-Fi'' = (Inr r, db') \<and>
      rel_name r = ''Sci-Fi'' \<and>
      select_related GenreModel (working db') = genres example_tables @ [r] \<and>
      get_or_create_all db' GenreModel [''Sci-Fi'', ''Sci-Fi''] = (Inr [r, r], db'))"
proof -
  have d: "distinct (map rel_name (select_related GenreModel (working (open_session example_tables))))"
    by (simp add: open_session_def example_tables_def)
  have absent: "''Sci-Fi'' \<notin> rel_name ` set (select_related GenreModel (working (open_session example_tables)))"
    by (simp add: open_session_def example_tables_def)
  from get_or_create_idempotent [OF d, of "''Sci-Fi''"] obtain r db' where
    *: "get_or_create_related_instance (open_session example_tables) GenreModel ''Sci-Fi'' = (Inr r, db')"
       "rel_name r = ''Sci-Fi''"
       "(if ''Sci-Fi'' \<in> rel_name ` set (select_related GenreModel (working (open_session example_tables)))
            then r \<in> set (select_related GenreModel (working (open_session example_tables))) \<and> db' = open_session example_tables
            else rel_id r \<notin> rel_id ` set (select_related GenreModel (working (open_session example_tables))) \<and>
                 select_related GenreModel (working db') = select_related GenreModel (working (open_session example_tables)) @ [r])"
       "\<forall>n. get_or_create_all db' GenreModel (replicate n ''Sci-Fi'') = (Inr (replicate n r), db')"
    by blast
  from *(3) absent have rows: "select_related GenreModel (working db') = genres example_tables @ [r]"
    by (simp add: open_session_def)
  from *(4) have "get_or_create_all db' GenreModel (replicate 2 ''Sci-Fi'') = (Inr (replicate 2 r), db')"
    by blast
  then have twice: "get_or_create_all db' GenreModel [''Sci-Fi'', ''Sci-Fi''] = (Inr [r, r], db')"
    by (simp add: numeral_2_eq_2)
  from d *(1,2) rows twice show ?thesis by blast
qed

subsection \<open>The list endpoint\<close>

text \<open>
  What a successful list request has computed: the checks it passed and each field of the
  response.
\<close>

lemma get_movies_list_success:
  assumes "get_movies_list request page per_page db = (Inr (st, r), db')"
  shows "1 \<le> page" "1 \<le> per_page" "per_page \<le> 20" "st = HTTP_200_OK" "db' = db"
    "movies (working db) \<noteq> []" "movies_query ((page - 1) * per_page) per_page db \<noteq> []"
    "\<forall>m \<in> set (movies_query ((page - 1) * per_page) per_page db).
        MovieShortResponse_from m \<noteq> None"
    "l_movies r =
       List.map_filter MovieShortResponse_from (movies_query ((page - 1) * per_page) per_page db)"
    "prev_page r =
       (if page > 1
        then Some (''/api/v1/theater/movies/'' @ ''?page='' @ str_int (page - 1)
                     @ ''&per_page='' @ str_int per_page)
        else None)"
    "next_page r =
       (if page < \<lceil>real_of_int (int (length (movies (working db)))) / real_of_int per_page\<rceil>
        then Some (''/api/v1/theater/movies/'' @ ''?page='' @ str_int (page + 1)
                     @ ''&per_page='' @ str_int per_page)
        else None)"
    "total_pages r = \<lceil>real_of_int (int (length (movies (working db)))) / real_of_int per_page\<rceil>"
    "total_items r = int (length (movies (working db)))"
  using assms
  by (auto simp: get_movies_list_def MoviesListResponse_init_def Let_def movies_query_def
           split: if_splits sum.splits)

lemma map_filter_all_Some:
  "\<forall>x \<in> set xs. f x \<noteq> None \<Longrightarrow> map Some (List.map_filter f xs) = map f xs"
  by (induction xs) (auto simp: List.map_filter_simps)

lemma page_within_total:
  assumes "1 \<le> per_page" and "(page - 1) * per_page < n"
  shows "page \<le> \<lceil>real_of_int n / real_of_int per_page\<rceil>"
proof -
  have "real_of_int (page - 1) * real_of_int per_page < real_of_int n"
    using assms(2) by (metis of_int_less_iff of_int_mult)
  then have "real_of_int (page - 1) < real_of_int n / real_of_int per_page"
    using assms(1) by (simp add: pos_less_divide_eq)
  then have "page - 1 < \<lceil>real_of_int n / real_of_int per_page\<rceil>"
    by (simp add: less_ceiling_iff)
  then show ?thesis by simp
qed

lemma page_slice_empty_iff:
  assumes "1 \<le> page" and "1 \<le> per_page"
  shows "movies_query ((page - 1) * per_page) per_page db = [] \<longleftrightarrow>
         int (length (movies (working db))) \<le> (page - 1) * per_page"
proof -
  have nonneg: "0 \<le> (page - 1) * per_page" using assms by simp
  have "n \<le> nat k \<longleftrightarrow> int n \<le> k" if "0 \<le> k" for n k
    using that by linarith
  from this [OF nonneg] show ?thesis
    using assms(2) by (simp add: movies_query_def order_by_id_desc_def)
qed

lemma order_by_id_desc_sorted:
  "sorted_wrt (\<lambda>a b. m_id b \<le> m_id a) (order_by_id_desc ms)"
proof -
  have "sorted (map m_id (sort_key m_id ms))" by (rule sorted_sort_key)
  then have "sorted_wrt (\<lambda>a b. m_id a \<le> m_id b) (sort_key m_id ms)"
    by (simp add: sorted_wrt_map)
  then show ?thesis
    by (simp add: order_by_id_desc_def sorted_wrt_rev)
qed

lemma order_by_id_desc_mset: "mset (order_by_id_desc ms) = mset ms"
  by (simp add: order_by_id_desc_def)

lemmas list_eval_simps =
  get_movies_list_def movies_query_def order_by_id_desc_def example_catalog_def
  example_movie_def open_session_def MoviesListResponse_init_def MovieShortResponse_from_def
  List.map_filter_simps str_int_def str_nat.simps HTTP_200_OK_def HTTP_404_NOT_FOUND_def Let_def

lemma example_list_page1:
  "get_movies_list \<lparr>url_path = ''/movies/''\<rparr> 1 2 (open_session example_catalog) =
     (Inr (200, example_page1), open_session example_catalog)"
  by (simp add: list_eval_simps example_page1_def)

lemma example_list_page2:
  "get_movies_list \<lparr>url_path = ''/movies/''\<rparr> 2 2 (open_session example_catalog) =
     (Inr (200, example_page2), open_session example_catalog)"
  by (simp add: list_eval_simps example_page2_def)

lemma MovieShortResponse_from_populated:
  "MovieShortResponse_from m \<noteq> None \<longleftrightarrow> populated m"
  by (auto simp: MovieShortResponse_from_def populated_def split: option.splits)

text \<open>
  Claim C3. A list request that returns 200 has a valid page and page size, returns at most
  \<open>per_page\<close> items, has no previous link exactly on page 1 and no next link exactly on the
  last page, \<open>total_pages\<close> being the ceiling of \<open>total_items / per_page\<close>.
\<close>

theorem list_page_bounds:
  assumes "get_movies_list request page per_page db = (Inr (st, r), db')"
  shows "1 \<le> page \<and> 1 \<le> per_page \<and> per_page \<le> 20 \<and>
         int (length (l_movies r)) \<le> per_page \<and>
         (prev_page r = None \<longleftrightarrow> page = 1) \<and>
         (next_page r = None \<longleftrightarrow> page = total_pages r) \<and>
         total_pages r = \<lceil>real_of_int (total_items r) / real_of_int per_page\<rceil> \<and>
         total_items r = int (length (movies (working db)))"
proof -
  note ok = get_movies_list_success [OF assms]
  let ?ms = "movies_query ((page - 1) * per_page) per_page db"
  have len: "int (length (l_movies r)) \<le> per_page"
  proof -
    have "length (l_movies r) = length (map Some (l_movies r))" by simp
    also have "\<dots> = length ?ms"
      using map_filter_all_Some [OF ok(8)] ok(9) by simp
    also have "\<dots> \<le> nat per_page" by (simp add: movies_query_def)
    finally show ?thesis using ok(2) by linarith
  qed
  have "\<not> int (length (movies (working db))) \<le> (page - 1) * per_page"
    using page_slice_empty_iff [OF ok(1) ok(2), of db] ok(7) by simp
  then have "(page - 1) * per_page < int (length (movies (working db)))"
    by simp
  then have "page \<le> \<lceil>real_of_int (int (length (movies (working db)))) / real_of_int per_page\<rceil>"
    by (rule page_within_total [OF ok(2)])
  then have nxt: "next_page r = None \<longleftrightarrow> page = total_pages r"
    using ok(11) ok(12) by auto
  have prv: "prev_page r = None \<longleftrightarrow> page = 1"
    using ok(1) ok(10) by auto
  from ok(1-3) len prv nxt ok(12) ok(13) show ?thesis by simp
qed

theorem list_page_bounds_witness:
  "get_movies_list \<lparr>url_path = ''/movies/''\<rparr> 2 2 (open_session example_catalog) =
     (Inr (200, example_page2), open_session example_catalog) \<and>
   int (length (l_movies example_page2)) \<le> 2 \<and>
   prev_page example_page2 \<noteq> None \<and> next_page example_page2 = None \<and>
   total_pages example_page2 = 2"
  using list_page_bounds [OF example_list_page2] example_list_page2
  by (simp add: example_page2_def)

text \<open>
  Claim C5. For a valid page and page size the list request fails with 404 exactly when the
  catalog has no movie or the slice at offset \<open>(page - 1) * per_page\<close> has no row, which is
  when the offset reaches the number of movies. Otherwise, the rows holding the list fields
  the data model gives them, it returns 200 with a non-empty page.
\<close>

theorem list_not_found_iff:
  assumes "1 \<le> page" and "1 \<le> per_page" and "per_page \<le> 20"
  shows "(fst (get_movies_list request page per_page db) =
            Inl (HTTPException HTTP_404_NOT_FOUND NoMoviesFound) \<longleftrightarrow>
          movies (working db) = [] \<or> movies_query ((page - 1) * per_page) per_page db = []) \<and>
         (movies_query ((page - 1) * per_page) per_page db = [] \<longleftrightarrow>
          int (length (movies (working db))) \<le> (page - 1) * per_page) \<and>
         (movies (working db) \<noteq> [] \<and> movies_query ((page - 1) * per_page) per_page db \<noteq> [] \<and>
          (\<forall>m \<in> set (movies (working db)). populated m) \<longrightarrow>
          (\<exists>r. get_movies_list request page per_page db = (Inr (HTTP_200_OK, r), db) \<and>
               l_movies r \<noteq> []))"
proof -
  let ?ms = "movies_query ((page - 1) * per_page) per_page db"
  have a: "fst (get_movies_list request page per_page db) =
            Inl (HTTPException HTTP_404_NOT_FOUND NoMoviesFound) \<longleftrightarrow>
          movies (working db) = [] \<or> ?ms = []"
    using assms
    by (auto simp: get_movies_list_def Let_def MoviesListResponse_init_def split: sum.splits)
  have b: "?ms = [] \<longleftrightarrow> int (length (movies (working db))) \<le> (page - 1) * per_page"
    by (rule page_slice_empty_iff [OF assms(1,2)])
  have c: "\<exists>r. get_movies_list request page per_page db = (Inr (HTTP_200_OK, r), db) \<and> l_movies r \<noteq> []"
    if ne: "movies (working db) \<noteq> []" "?ms \<noteq> []"
      and pop: "\<forall>m \<in> set (movies (working db)). populated m"
  proof -
    have sub: "set ?ms \<subseteq> set (movies (working db))"
    proof -
      have "set ?ms \<subseteq> set (order_by_id_desc (movies (working db)))"
        unfolding movies_query_def
        by (meson set_take_subset set_drop_subset subset_trans)
      then show ?thesis by (simp add: order_by_id_desc_def)
    qed
    with pop have all: "\<forall>m \<in> set ?ms. MovieShortResponse_from m \<noteq> None"
      using MovieShortResponse_from_populated by blast
    from ne(2) obtain x xs where "?ms = x # xs" by (cases ?ms) auto
    with all have "List.map_filter MovieShortResponse_from ?ms \<noteq> []"
      by (auto simp: List.map_filter_simps split: option.splits)
    with assms ne all show ?thesis
      by (simp add: get_movies_list_def Let_def MoviesListResponse_init_def)
  qed
  from a b c show ?thesis by blast
qed

theorem list_not_found_iff_witness:
  "(1::int) \<le> 3 \<and> (1::int) \<le> 2 \<and> (2::int) \<le> 20 \<and>
   fst (get_movies_list \<lparr>url_path = ''/movies/''\<rparr> 3 2 (open_session example_catalog)) =
     Inl (HTTPException HTTP_404_NOT_FOUND NoMoviesFound) \<and>
   movies_query ((3 - 1) * 2) 2 (open_session example_catalog) = [] \<and>
   list_all populated (movies (working (open_session example_catalog))) \<and>
   movies_query ((1 - 1) * 2) 2 (open_session example_catalog) \<noteq> [] \<and>
   (\<exists>r. get_movies_list \<lparr>url_path = ''/movies/''\<rparr> 1 2 (open_session example_catalog) =
           (Inr (HTTP_200_OK, r), open_session example_catalog) \<and> l_movies r \<noteq> [])"
proof -
  have empty3: "movies_query ((3 - 1) * 2) 2 (open_session example_catalog) = []"
    by (simp add: movies_query_def order_by_id_desc_def example_catalog_def open_session_def)
  have full1: "movies_query ((1 - 1) * 2) 2 (open_session example_catalog) \<noteq> []"
    by (simp add: movies_query_def order_by_id_desc_def example_catalog_def open_session_def
        example_movie_def)
  have pop: "\<forall>m \<in> set (movies (working (open_session example_catalog))). populated m"
    by (simp add: example_catalog_def open_session_def example_movie_def populated_def)
  have ne: "movies (working (open_session example_catalog)) \<noteq> []"
    by (simp add: example_catalog_def open_session_def)
  from list_not_found_iff [of 3 2 "\<lparr>url_path = ''/movies/''\<rparr>" "open_session example_catalog"] empty3
  have nf: "fst (get_movies_list \<lparr>url_path = ''/movies/''\<rparr> 3 2 (open_session example_catalog)) =
     Inl (HTTPException HTTP_404_NOT_FOUND NoMoviesFound)"
    by simp
  from list_not_found_iff [of 1 2 "\<lparr>url_path = ''/movies/''\<rparr>" "open_session example_catalog"]
    full1 pop ne
  have ok: "\<exists>r. get_movies_list \<lparr>url_path = ''/movies/''\<rparr> 1 2 (open_session example_catalog) =
           (Inr (HTTP_200_OK, r), open_session example_catalog) \<and> l_movies r \<noteq> []"
    by simp
  from pop have "list_all populated (movies (working (open_session example_catalog)))"
    by (simp add: list_all_iff)
  with nf empty3 full1 ok show ?thesis by simp
qed

text \<open>
  The strings \<open>str_nat\<close> produces are decimal numerals: reading them back gives the number.
\<close>

lemma digit_value_nth: "d < 10 \<Longrightarrow> digit_value (''0123456789'' ! d) = d"
proof -
  assume "d < 10"
  then have "d \<in> {0, 1, 2, 3, 4, 5, 6, 7, 8, 9}" by auto
  then show ?thesis
    by (auto simp: digit_value_def)
qed

lemma decimal_value_str_nat: "decimal_value (str_nat n) = n"
proof (induction n rule: str_nat.induct)
  case (1 n)
  show ?case
  proof (cases "n < 10")
    case True
    then show ?thesis
      by (subst str_nat.simps) (simp add: decimal_value_def digit_value_nth)
  next
    case False
    with 1 have "decimal_value (str_nat (n div 10)) = n div 10" by simp
    with False show ?thesis
      by (subst str_nat.simps) (simp add: decimal_value_def digit_value_nth)
  qed
qed

text \<open>
  Claim C6. The items of a successful list request are the short forms of the rows at
  positions \<open>offset, ..., offset + per_page - 1\<close> of the movies ordered by identifier
  descending, with \<open>offset = (page - 1) * per_page\<close>; that ordering is a permutation of the
  table, sorted by identifier alone.
\<close>

theorem list_page_is_slice:
  assumes "get_movies_list request page per_page db = (Inr (st, r), db')"
  shows "map Some (l_movies r) =
           map MovieShortResponse_from
             (take (nat per_page) (drop (nat ((page - 1) * per_page))
                (order_by_id_desc (movies (working db))))) \<and>
         map s_id (l_movies r) =
           take (nat per_page) (drop (nat ((page - 1) * per_page))
             (map m_id (order_by_id_desc (movies (working db))))) \<and>
         mset (order_by_id_desc (movies (working db))) = mset (movies (working db)) \<and>
         sorted_wrt (\<lambda>a b. m_id b \<le> m_id a) (order_by_id_desc (movies (working db)))"
proof -
  note ok = get_movies_list_success [OF assms]
  let ?ms = "movies_query ((page - 1) * per_page) per_page db"
  have items: "map Some (l_movies r) = map MovieShortResponse_from ?ms"
    using map_filter_all_Some [OF ok(8)] ok(9) by simp
  have "map (map_option s_id) (map Some (l_movies r)) =
        map (map_option s_id) (map MovieShortResponse_from ?ms)"
    by (simp only: items)
  moreover have "map_option s_id (MovieShortResponse_from m) = Some (m_id m)"
    if "m \<in> set ?ms" for m
    using ok(8) that
    by (auto simp: MovieShortResponse_from_def split: option.splits)
  ultimately have "map Some (map s_id (l_movies r)) = map Some (map m_id ?ms)"
    by (simp add: comp_def cong: map_cong)
  then have "map s_id (l_movies r) = map m_id ?ms"
    using inj_map_eq_map [OF inj_Some] by blast
  then have ids: "map s_id (l_movies r) =
           take (nat per_page) (drop (nat ((page - 1) * per_page))
             (map m_id (order_by_id_desc (movies (working db)))))"
    by (simp add: movies_query_def take_map drop_map)
  from items ids order_by_id_desc_mset order_by_id_desc_sorted show ?thesis
    by (simp add: movies_query_def)
qed

theorem list_page_is_slice_witness:
  "get_movies_list \<lparr>url_path = ''/movies/''\<rparr> 1 2 (open_session example_catalog) =
     (Inr (200, example_page1), open_session example_catalog) \<and>
   map s_id (l_movies example_page1) = [5, 4] \<and>
   map s_date (l_movies example_page1) = [722590, 728642] \<and>
   map m_id (order_by_id_desc (movies (working (open_session example_catalog)))) = [5, 4, 2]"
proof -
  have ids: "map m_id (order_by_id_desc (movies (working (open_session example_catalog)))) = [5, 4, 2]"
    by (simp add: order_by_id_desc_def example_catalog_def example_movie_def open_session_def)
  from list_page_is_slice [OF example_list_page1]
  have "map s_id (l_movies example_page1) =
          take (nat 2) (drop (nat ((1 - 1) * 2))
            (map m_id (order_by_id_desc (movies (working (open_session example_catalog))))))"
    by blast
  then have "map s_id (l_movies example_page1) = [5, 4]"
    by (simp add: ids)
  with example_list_page1 ids show ?thesis
    by (simp add: example_page1_def)
qed

text \<open>
  The links are built on the constant \<^verbatim>\<open>base_url\<close> of the handler.
\<close>

lemma list_links_base_url:
  assumes "get_movies_list request page per_page db = (Inr (st, r), db')"
  shows "prev_page r =
           (if 1 < page
            then Some (''/api/v1/theater/movies/?page='' @ str_int (page - 1)
                         @ ''&per_page='' @ str_int per_page)
            else None)"
    and "next_page r =
           (if page < total_pages r
            then Some (''/api/v1/theater/movies/?page='' @ str_int (page + 1)
                         @ ''&per_page='' @ str_int per_page)
            else None)"
proof -
  note ok = get_movies_list_success [OF assms]
  from ok(10) show "prev_page r =
           (if 1 < page
            then Some (''/api/v1/theater/movies/?page='' @ str_int (page - 1)
                         @ ''&per_page='' @ str_int per_page)
            else None)" by simp
  from ok(11) ok(12) show "next_page r =
           (if page < total_pages r
            then Some (''/api/v1/theater/movies/?page='' @ str_int (page + 1)
                         @ ''&per_page='' @ str_int per_page)
            else None)" by simp
qed

lemma decimal_value_str_int: "0 \<le> i \<Longrightarrow> int (decimal_value (str_int i)) = i"
  by (simp add: str_int_def decimal_value_str_nat)

text \<open>
  Claim C9. For a successful list request served at the path of the list route under the
  routing layer's prefix, the links that are present are query strings on that same path,
  the path of the request: the previous link carries \<open>page - 1\<close>, the next link \<open>page + 1\<close>,
  both the same \<open>per_page\<close>, each written as the decimal numeral of the number.
\<close>

theorem list_links_own_path:
  assumes "get_movies_list request page per_page db = (Inr (st, r), db')"
    and "url_path request = mounted_list_path"
  shows "prev_page r =
           (if 1 < page
            then Some (url_path request @ ''?page='' @ str_int (page - 1)
                         @ ''&per_page='' @ str_int per_page)
            else None) \<and>
         next_page r =
           (if page < total_pages r
            then Some (url_path request @ ''?page='' @ str_int (page + 1)
                         @ ''&per_page='' @ str_int per_page)
            else None) \<and>
         int (decimal_value (str_int (page - 1))) = page - 1 \<and>
         int (decimal_value (str_int (page + 1))) = page + 1 \<and>
         int (decimal_value (str_int per_page)) = per_page"
proof -
  note ok = get_movies_list_success [OF assms(1)]
  have path: "url_path request = ''/api/v1/theater/movies/''"
    using assms(2) by (simp add: mounted_list_path_def list_route_def)
  have nums: "int (decimal_value (str_int (page - 1))) = page - 1"
    "int (decimal_value (str_int (page + 1))) = page + 1"
    "int (decimal_value (str_int per_page)) = per_page"
    using ok(1) ok(2) by (simp_all add: decimal_value_str_int)
  from list_links_base_url [OF assms(1)] nums show ?thesis
    by (simp add: path)
qed

theorem list_links_own_path_witness:
  "get_movies_list \<lparr>url_path = mounted_list_path\<rparr> 2 2 (open_session example_catalog) =
     (Inr (200, example_page2), open_session example_catalog) \<and>
   url_path \<lparr>url_path = mounted_list_path\<rparr> = mounted_list_path \<and>
   prev_page example_page2 = Some (mounted_list_path @ ''?page=1&per_page=2'') \<and>
   next_page example_page2 = None"
proof -
  have run: "get_movies_list \<lparr>url_path = mounted_list_path\<rparr> 2 2 (open_session example_catalog) =
     (Inr (200, example_page2), open_session example_catalog)"
    by (simp add: list_eval_simps example_page2_def)
  have path: "url_path \<lparr>url_path = mounted_list_path\<rparr> = mounted_list_path"
    by simp
  from list_links_own_path [OF run path]
  have "prev_page example_page2 =
          Some (url_path \<lparr>url_path = mounted_list_path\<rparr> @ ''?page='' @ str_int (2 - 1)
                  @ ''&per_page='' @ str_int 2)"
    and "next_page example_page2 =
          (if 2 < total_pages example_page2
           then Some (url_path \<lparr>url_path = mounted_list_path\<rparr> @ ''?page='' @ str_int (2 + 1)
                        @ ''&per_page='' @ str_int 2)
           else None)"
    by simp_all
  then have "prev_page example_page2 = Some (mounted_list_path @ ''?page=1&per_page=2'')"
    and "next_page example_page2 = None"
    by (simp_all add: str_int_def str_nat.simps example_page2_def)
  with run path show ?thesis by blast
qed

subsection \<open>Detail and delete\<close>

text \<open>
  A query by identifier finds the one row of that identifier, identifiers being unique.
\<close>

lemma filter_id_unique:
  assumes "distinct (map m_id ms)" and "m \<in> set ms"
  shows "filter (\<lambda>x. m_id x = m_id m) ms = [m]"
  using filter_key_unique [OF assms] .

lemma filter_id_absent:
  assumes "movie_id \<notin> m_id ` set ms"
  shows "filter (\<lambda>x. m_id x = movie_id) ms = []"
  using filter_key_absent [OF assms] .

lemma get_movie_details_absent:
  assumes "movie_id \<notin> m_id ` set (movies t)"
  shows "serve (get_movie_details movie_id) t =
           (Inl (HTTPException HTTP_404_NOT_FOUND MovieNotFound), t)"
  using filter_id_absent [OF assms]
  by (simp add: serve_def get_movie_details_def get_movie_by_id_def open_session_def)

lemma get_movie_details_present:
  assumes "distinct (map m_id (movies t))" and "m \<in> set (movies t)"
  shows "serve (get_movie_details (m_id m)) t =
           (case MovieDetailResponse_from (load_relationships t m) of
              None \<Rightarrow> (Inl ResponseValidationError, t)
            | Some response \<Rightarrow> (Inr (HTTP_200_OK, response), t))"
  using filter_id_unique [OF assms]
  by (simp add: serve_def get_movie_details_def get_movie_by_id_def open_session_def
      split: option.splits)

text \<open>A stored movie is a complete detail when no scalar is missing and its country is found.\<close>

lemma detail_complete_iff:
  "detail_complete t m \<longleftrightarrow>
     m_name m \<noteq> None \<and> m_date m \<noteq> None \<and> m_score m \<noteq> None \<and> m_overview m \<noteq> None \<and>
     m_status m \<noteq> None \<and> m_budget m \<noteq> None \<and> m_revenue m \<noteq> None \<and>
     find (\<lambda>c. c_id c = m_country_id m) (countries t) \<noteq> None"
  by (auto simp: detail_complete_def MovieDetailResponse_from_def load_relationships_def
      split: option.splits)

text \<open>
  Claim C8. With unique identifiers, a delete request for an identifier no movie has
  returns 404 and leaves the store as it is; for the identifier of a movie it returns 204
  with no body, and the store it commits lacks that movie and is otherwise unchanged. A
  detail request for the identifier on that store returns 404.
\<close>

theorem delete_movie_outcome:
  assumes "distinct (map m_id (movies t))"
  shows "(movie_id \<notin> m_id ` set (movies t) \<longrightarrow>
            serve (delete_movie movie_id) t =
              (Inl (HTTPException HTTP_404_NOT_FOUND MovieNotFound), t)) \<and>
         (movie_id \<in> m_id ` set (movies t) \<longrightarrow>
            serve (delete_movie movie_id) t =
              (Inr (Response HTTP_204_NO_CONTENT None),
               t\<lparr>movies := filter (\<lambda>m. m_id m \<noteq> movie_id) (movies t)\<rparr>) \<and>
            serve (get_movie_details movie_id)
                (t\<lparr>movies := filter (\<lambda>m. m_id m \<noteq> movie_id) (movies t)\<rparr>) =
              (Inl (HTTPException HTTP_404_NOT_FOUND MovieNotFound),
               t\<lparr>movies := filter (\<lambda>m. m_id m \<noteq> movie_id) (movies t)\<rparr>))"
proof (intro conjI impI)
  assume "movie_id \<notin> m_id ` set (movies t)"
  from filter_id_absent [OF this]
  show "serve (delete_movie movie_id) t =
          (Inl (HTTPException HTTP_404_NOT_FOUND MovieNotFound), t)"
    by (simp add: serve_def delete_movie_def open_session_def)
next
  assume "movie_id \<in> m_id ` set (movies t)"
  then obtain m where m: "m \<in> set (movies t)" "m_id m = movie_id" by auto
  from filter_id_unique [OF assms m(1)] m(2)
  show "serve (delete_movie movie_id) t =
          (Inr (Response HTTP_204_NO_CONTENT None),
           t\<lparr>movies := filter (\<lambda>m. m_id m \<noteq> movie_id) (movies t)\<rparr>)"
    by (simp add: serve_def delete_movie_def open_session_def db_delete_def commit_def)
next
  let ?t' = "t\<lparr>movies := filter (\<lambda>m. m_id m \<noteq> movie_id) (movies t)\<rparr>"
  have "movie_id \<notin> m_id ` set (movies ?t')" by auto
  from get_movie_details_absent [OF this]
  show "serve (get_movie_details movie_id) ?t' =
          (Inl (HTTPException HTTP_404_NOT_FOUND MovieNotFound), ?t')" .
qed

theorem delete_movie_outcome_witness:
  "distinct (map m_id (movies example_catalog)) \<and>
   (7::int) \<notin> m_id ` set (movies example_catalog) \<and>
   serve (delete_movie 7) example_catalog =
     (Inl (HTTPException HTTP_404_NOT_FOUND MovieNotFound), example_catalog) \<and>
   (5::int) \<in> m_id ` set (movies example_catalog) \<and>
   serve (delete_movie 5) example_catalog =
     (Inr (Response HTTP_204_NO_CONTENT None),
      example_catalog\<lparr>movies := [example_movie 2 ''Dune'' 738085, example_movie 4 ''Heat'' 728642]\<rparr>) \<and>
   fst (serve (get_movie_details 5)
      (example_catalog\<lparr>movies := [example_movie 2 ''Dune'' 738085, example_movie 4 ''Heat'' 728642]\<rparr>)) =
     Inl (HTTPException HTTP_404_NOT_FOUND MovieNotFound)"
proof -
  have d: "distinct (map m_id (movies example_catalog))"
    by (simp add: example_catalog_def example_movie_def)
  have a: "(7::int) \<notin> m_id ` set (movies example_catalog)"
    by (simp add: example_catalog_def example_movie_def)
  have p: "(5::int) \<in> m_id ` set (movies example_catalog)"
    by (simp add: example_catalog_def example_movie_def)
  have f: "filter (\<lambda>m. m_id m \<noteq> 5) (movies example_catalog) =
             [example_movie 2 ''Dune'' 738085, example_movie 4 ''Heat'' 728642]"
    by (simp add: example_catalog_def example_movie_def)
  from delete_movie_outcome [OF d, of 7] a delete_movie_outcome [OF d, of 5] p d
  show ?thesis by (simp add: f)
qed

subsection \<open>Validation of a create request\<close>

text \<open>
  The lookup of a status by value finds exactly the member with that value.
\<close>

lemma MovieStatusEnum_of_value_Some:
  "MovieStatusEnum_of_value s = Some st \<longleftrightarrow> enum_value st = s"
  by (cases st) (auto simp: MovieStatusEnum_of_value_def)

lemma MovieStatusEnum_of_value_None:
  "MovieStatusEnum_of_value s = None \<longleftrightarrow>
     s \<notin> {''Released'', ''Post Production'', ''In Production''}"
  by (auto simp: MovieStatusEnum_of_value_def)

lemma validation_errors_empty:
  "validation_errors today b = [] \<longleftrightarrow>
     length (b_name b) \<le> 255 \<and> 0 \<le> b_score b \<and> b_score b \<le> 100 \<and>
     0 \<le> b_budget b \<and> 0 \<le> b_revenue b \<and> b_date b \<le> today + 365 \<and>
     b_status b \<in> {''Released'', ''Post Production'', ''In Production''}"
proof -
  have st: "(case MovieStatusEnum_of_value (b_status b) of None \<Rightarrow> [''status''] | Some st \<Rightarrow> []) = []
              \<longleftrightarrow> b_status b \<in> {''Released'', ''Post Production'', ''In Production''}"
    using MovieStatusEnum_of_value_None [of "b_status b"]
    by (cases "MovieStatusEnum_of_value (b_status b)") simp_all
  have dt: "(case validate_date today (b_date b) of Inl msg \<Rightarrow> [''date''] | Inr v \<Rightarrow> []) = []
              \<longleftrightarrow> b_date b \<le> today + 365"
    by (simp add: validate_date_def)
  show ?thesis
    unfolding validation_errors_def append_is_Nil_conv st dt
    by auto
qed

lemma validate_rejects:
  "validation_errors today b \<noteq> [] \<Longrightarrow>
     MovieCreateRequest_validate today b = Inl (RequestValidationError (validation_errors today b))"
  by (cases "validation_errors today b")
     (simp_all add: MovieCreateRequest_validate_def split: option.splits)

lemma validate_accepts:
  assumes "validation_errors today b = []"
  shows "\<exists>st. MovieStatusEnum_of_value (b_status b) = Some st \<and>
           MovieCreateRequest_validate today b =
             Inr \<lparr>r_name = b_name b, r_date = b_date b, r_score = b_score b,
                  r_overview = b_overview b, r_status = st, r_budget = b_budget b,
                  r_revenue = b_revenue b, r_country = b_country b, r_genres = b_genres b,
                  r_actors = b_actors b, r_languages = b_languages b\<rparr>"
proof -
  from assms have "b_status b \<in> {''Released'', ''Post Production'', ''In Production''}"
    by (simp add: validation_errors_empty)
  then have "MovieStatusEnum_of_value (b_status b) \<noteq> None"
    by (simp add: MovieStatusEnum_of_value_None)
  then obtain st where "MovieStatusEnum_of_value (b_status b) = Some st" by auto
  with assms show ?thesis
    by (simp add: MovieCreateRequest_validate_def)
qed

text \<open>
  Claim C7 as stated fails: a body within all the listed bounds whose status is not a
  value of the enumeration is rejected.
\<close>

theorem create_validation_counterexample:
  "length (b_name (example_body\<lparr>b_status := ''Cancelled''\<rparr>)) \<le> 255 \<and>
   0 \<le> b_score (example_body\<lparr>b_status := ''Cancelled''\<rparr>) \<and>
   b_score (example_body\<lparr>b_status := ''Cancelled''\<rparr>) \<le> 100 \<and>
   0 \<le> b_budget (example_body\<lparr>b_status := ''Cancelled''\<rparr>) \<and>
   0 \<le> b_revenue (example_body\<lparr>b_status := ''Cancelled''\<rparr>) \<and>
   b_date (example_body\<lparr>b_status := ''Cancelled''\<rparr>) \<le> example_today + 365 \<and>
   MovieCreateRequest_validate example_today (example_body\<lparr>b_status := ''Cancelled''\<rparr>) =
     Inl (RequestValidationError [''status''])"
  by (simp add: example_body_def example_today_def MovieCreateRequest_validate_def
      validation_errors_def validate_date_def MovieStatusEnum_of_value_def)

text \<open>
  Claim C7, amended. A create body (its fields present and of their JSON types) is
  rejected with a validation error, the session untouched, exactly when one of these
  fails: name of at most 255 characters, score in [0, 100], budget and revenue not
  negative, date at most 365 days after the current date, status one of the three values
  of the enumeration. Exactly when all hold, validation yields the request with the same
  fields and the handler runs on it.
\<close>

theorem create_validation_iff:
  "((\<exists>errors. errors \<noteq> [] \<and>
        MovieCreateRequest_validate today b = Inl (RequestValidationError errors) \<and>
        post_movies today b db = (Inl (RequestValidationError errors), db)) \<longleftrightarrow>
    \<not> (length (b_name b) \<le> 255 \<and> 0 \<le> b_score b \<and> b_score b \<le> 100 \<and>
       0 \<le> b_budget b \<and> 0 \<le> b_revenue b \<and> b_date b \<le> today + 365 \<and>
       b_status b \<in> {''Released'', ''Post Production'', ''In Production''})) \<and>
   ((\<exists>movie_data.
        MovieCreateRequest_validate today b = Inr movie_data \<and>
        post_movies today b db = create_movie movie_data db \<and>
        r_name movie_data = b_name b \<and> r_date movie_data = b_date b \<and>
        r_score movie_data = b_score b \<and> r_overview movie_data = b_overview b \<and>
        enum_value (r_status movie_data) = b_status b \<and>
        r_budget movie_data = b_budget b \<and> r_revenue movie_data = b_revenue b \<and>
        r_country movie_data = b_country b \<and> r_genres movie_data = b_genres b \<and>
        r_actors movie_data = b_actors b \<and> r_languages movie_data = b_languages b) \<longleftrightarrow>
    (length (b_name b) \<le> 255 \<and> 0 \<le> b_score b \<and> b_score b \<le> 100 \<and>
     0 \<le> b_budget b \<and> 0 \<le> b_revenue b \<and> b_date b \<le> today + 365 \<and>
     b_status b \<in> {''Released'', ''Post Production'', ''In Production''}))"
proof (cases "validation_errors today b = []")
  case True
  from validate_accepts [OF True] obtain st where
    st: "MovieStatusEnum_of_value (b_status b) = Some st" and
    ok: "MovieCreateRequest_validate today b =
             Inr \<lparr>r_name = b_name b, r_date = b_date b, r_score = b_score b,
                  r_overview = b_overview b, r_status = st, r_budget = b_budget b,
                  r_revenue = b_revenue b, r_country = b_country b, r_genres = b_genres b,
                  r_actors = b_actors b, r_languages = b_languages b\<rparr>"
    by blast
  from st have "enum_value st = b_status b"
    by (simp add: MovieStatusEnum_of_value_Some)
  with ok True [unfolded validation_errors_empty] show ?thesis
    by (simp add: post_movies_def)
next
  case False
  from validate_rejects [OF False] False False [unfolded validation_errors_empty]
  show ?thesis
    by (simp add: post_movies_def)
qed

theorem create_validation_iff_witness:
  "MovieCreateRequest_validate example_today (example_body\<lparr>b_score := 101\<rparr>) =
     Inl (RequestValidationError [''score'']) \<and>
   post_movies example_today (example_body\<lparr>b_score := 101\<rparr>) (open_session example_catalog) =
     (Inl (RequestValidationError [''score'']), open_session example_catalog) \<and>
   (\<exists>movie_data.
      MovieCreateRequest_validate example_today example_body = Inr movie_data \<and>
      r_status movie_data = RELEASED \<and> r_name movie_data = ''Dune'')"
proof -
  have bad: "MovieCreateRequest_validate example_today (example_body\<lparr>b_score := 101\<rparr>) =
     Inl (RequestValidationError [''score''])"
    by (simp add: example_body_def example_today_def MovieCreateRequest_validate_def
      validation_errors_def validate_date_def MovieStatusEnum_of_value_def)
  from create_validation_iff [of example_today "example_body\<lparr>b_score := 101\<rparr>" "open_session example_catalog"]
  have "\<exists>errors. errors \<noteq> [] \<and>
        MovieCreateRequest_validate example_today (example_body\<lparr>b_score := 101\<rparr>) = Inl (RequestValidationError errors) \<and>
        post_movies example_today (example_body\<lparr>b_score := 101\<rparr>) (open_session example_catalog) = (Inl (RequestValidationError errors), open_session example_catalog)"
    by (simp add: example_body_def)
  with bad have rej: "post_movies example_today (example_body\<lparr>b_score := 101\<rparr>) (open_session example_catalog) =
     (Inl (RequestValidationError [''score'']), open_session example_catalog)"
    by auto
  from create_validation_iff [of example_today example_body "open_session example_catalog"]
  obtain movie_data where md: "MovieCreateRequest_validate example_today example_body = Inr movie_data"
    "enum_value (r_status movie_data) = ''Released''" "r_name movie_data = ''Dune''"
    by (auto simp: example_body_def example_today_def)
  from md(2) have "r_status movie_data = RELEASED"
    by (cases "r_status movie_data") simp_all
  with bad rej md show ?thesis by blast
qed

subsection \<open>The create endpoint\<close>

text \<open>
  A query on a key that is unique among the rows satisfying \<open>P\<close> finds at most one row.
\<close>

lemma filter_key_at_most_one:
  assumes "distinct (filter P (map f xs))" and "P k"
  shows "filter (\<lambda>x. f x = k) xs = [] \<or> (\<exists>x. x \<in> set xs \<and> filter (\<lambda>x. f x = k) xs = [x])"
  using assms(1)
proof (induction xs)
  case Nil
  then show ?case by simp
next
  case (Cons y ys)
  show ?case
  proof (cases "f y = k")
    case True
    with Cons.prems assms(2) have "k \<notin> f ` set ys" by auto
    then have "filter (\<lambda>x. f x = k) ys = []" by (rule filter_key_absent)
    with True show ?thesis by simp
  next
    case False
    from Cons.prems have "distinct (filter P (map f ys))" by (simp split: if_splits)
    with Cons.IH False show ?thesis by auto
  qed
qed

lemma duplicate_query:
  assumes "unique_keys t"
  shows "filter (\<lambda>m. m_name m = Some n \<and> m_date m = Some d) (movies t) = [] \<or>
         (\<exists>x. x \<in> set (movies t) \<and>
              filter (\<lambda>m. m_name m = Some n \<and> m_date m = Some d) (movies t) = [x])"
proof -
  have eq: "(\<lambda>m. m_name m = Some n \<and> m_date m = Some d) = (\<lambda>m. movie_key m = (Some n, Some d))"
    by (auto simp: movie_key_def)
  from assms have "distinct (filter (\<lambda>k. fst k \<noteq> None \<and> snd k \<noteq> None) (map movie_key (movies t)))"
    by (simp add: unique_keys_def)
  from filter_key_at_most_one [OF this, of "(Some n, Some d)"] show ?thesis
    unfolding eq by simp
qed

lemma get_or_create_frame:
  assumes "get_or_create_related_instance db model nm = (res, db')"
  shows "committed db' = committed db" "movies (working db') = movies (working db)"
    "countries (working db') = countries (working db)"
    "model' \<noteq> model \<Longrightarrow> select_related model' (working db') = select_related model' (working db)"
    "set (select_related model (working db)) \<subseteq> set (select_related model (working db'))"
proof -
  have "db' = db \<or> db' = snd (add_flush_related model nm db)"
    using assms
    by (auto simp: get_or_create_related_instance_def split: sum.splits option.splits prod.splits)
  then show "committed db' = committed db" "movies (working db') = movies (working db)"
    "countries (working db') = countries (working db)"
    "model' \<noteq> model \<Longrightarrow> select_related model' (working db') = select_related model' (working db)"
    "set (select_related model (working db)) \<subseteq> set (select_related model (working db'))"
    by (cases model; cases model'; auto simp: add_flush_related_def Let_def)+
qed

lemma get_or_create_all_ok:
  assumes "distinct (map rel_name (select_related model (working db)))"
  shows "\<exists>rs db'. get_or_create_all db model nms = (Inr rs, db') \<and>
           map rel_name rs = nms \<and>
           set rs \<subseteq> set (select_related model (working db')) \<and>
           set (select_related model (working db)) \<subseteq> set (select_related model (working db')) \<and>
           distinct (map rel_name (select_related model (working db'))) \<and>
           committed db' = committed db \<and> movies (working db') = movies (working db) \<and>
           countries (working db') = countries (working db) \<and>
           (\<forall>model'. model' \<noteq> model \<longrightarrow>
              select_related model' (working db') = select_related model' (working db))"
  using assms
proof (induction nms arbitrary: db)
  case Nil
  then show ?case by simp
next
  case (Cons nm nms)
  from get_or_create_returns [OF Cons.prems, of nm] obtain r db1
    where call: "get_or_create_related_instance db model nm = (Inr r, db1)"
    by blast
  note rows = get_or_create_rows [OF Cons.prems call]
  note frame = get_or_create_frame [OF call]
  from rows have d1: "distinct (map rel_name (select_related model (working db1)))"
    by simp
  from Cons.IH [OF d1] obtain rs db2 where
    rest: "get_or_create_all db1 model nms = (Inr rs, db2)" and
    props: "map rel_name rs = nms"
      "set rs \<subseteq> set (select_related model (working db2))"
      "set (select_related model (working db1)) \<subseteq> set (select_related model (working db2))"
      "distinct (map rel_name (select_related model (working db2)))"
      "committed db2 = committed db1" "movies (working db2) = movies (working db1)"
      "countries (working db2) = countries (working db1)"
      "\<forall>model'. model' \<noteq> model \<longrightarrow>
              select_related model' (working db2) = select_related model' (working db1)"
    by blast
  have run: "get_or_create_all db model (nm # nms) = (Inr (r # rs), db2)"
    by (simp add: call rest)
  from rows have r: "rel_name r = nm" "r \<in> set (select_related model (working db1))"
    by simp_all
  show ?case
    unfolding run
    using r props frame by auto
qed

lemma country_query:
  assumes "distinct (map c_code (countries (working db)))"
  shows "\<exists>country db1.
           (\<exists>found. scalar_one_or_none (filter (\<lambda>c. c_code c = code) (countries (working db))) = Inr found \<and>
              (case found of Some c \<Rightarrow> (c, db) | None \<Rightarrow> add_flush_country code db) = (country, db1)) \<and>
           country \<in> set (countries (working db1)) \<and>
           distinct (map c_code (countries (working db1))) \<and>
           committed db1 = committed db \<and> movies (working db1) = movies (working db) \<and>
           genres (working db1) = genres (working db) \<and> actors (working db1) = actors (working db) \<and>
           languages (working db1) = languages (working db)"
proof (cases "code \<in> c_code ` set (countries (working db))")
  case True
  then obtain c where c: "c \<in> set (countries (working db))" "c_code c = code" by auto
  from filter_key_unique [OF assms c(1)] c(2)
  have "scalar_one_or_none (filter (\<lambda>c. c_code c = code) (countries (working db))) = Inr (Some c)"
    by simp
  with assms c(1) show ?thesis by auto
next
  case False
  from filter_key_absent [OF False]
  have "scalar_one_or_none (filter (\<lambda>c. c_code c = code) (countries (working db))) = Inr None"
    by simp
  with assms False show ?thesis
    by (auto simp: add_flush_country_def Let_def)
qed

lemma create_movie_conflict_session:
  assumes "unique_keys (working db)" and "m \<in> set (movies (working db))"
    and "m_name m = Some (r_name movie_data)" and "m_date m = Some (r_date movie_data)"
  shows "create_movie movie_data db =
           (Inl (HTTPException HTTP_409_CONFLICT
                  (MovieAlreadyExists (r_name movie_data) (r_date movie_data))), db)"
proof -
  let ?q = "filter (\<lambda>m. m_name m = Some (r_name movie_data) \<and> m_date m = Some (r_date movie_data))
              (movies (working db))"
  have "?q \<noteq> []"
    using assms(2-4) by (auto simp: filter_empty_conv)
  with duplicate_query [OF assms(1), of "r_name movie_data" "r_date movie_data"]
  obtain x where "?q = [x]" by blast
  then show ?thesis by (simp add: create_movie_def)
qed

lemma create_movie_success_session:
  assumes "unique_keys (working db)"
    and "\<not> (\<exists>m \<in> set (movies (working db)).
              m_name m = Some (r_name movie_data) \<and> m_date m = Some (r_date movie_data))"
  shows "\<exists>row db'.
           create_movie movie_data db =
             (Inr (HTTP_201_CREATED, Some (load_relationships (working db') row)), db') \<and>
           committed db' = working db' \<and>
           movies (working db') = movies (working db) @ [row] \<and>
           unique_keys (working db') \<and>
           detail_complete (working db') row \<and>
           m_id row \<notin> m_id ` set (movies (working db)) \<and>
           m_name row = Some (r_name movie_data) \<and> m_date row = Some (r_date movie_data) \<and>
           m_score row = Some (r_score movie_data) \<and>
           m_overview row = Some (r_overview movie_data) \<and>
           m_status row = Some (enum_value (r_status movie_data)) \<and>
           m_budget row = Some (r_budget movie_data) \<and>
           m_revenue row = Some (r_revenue movie_data)"
proof -
  let ?q = "filter (\<lambda>m. m_name m = Some (r_name movie_data) \<and> m_date m = Some (r_date movie_data))
              (movies (working db))"
  from assms(2) have q: "?q = []" by (auto simp: filter_empty_conv)
  from assms(1) have u:
    "distinct (filter (\<lambda>k. fst k \<noteq> None \<and> snd k \<noteq> None) (map movie_key (movies (working db))))"
    "distinct (map c_code (countries (working db)))"
    "distinct (map rel_name (genres (working db)))"
    "distinct (map rel_name (actors (working db)))"
    "distinct (map rel_name (languages (working db)))"
    by (simp_all add: unique_keys_def)
  from country_query [OF u(2), of "r_country movie_data"] obtain country db1 found where
    found: "scalar_one_or_none (filter (\<lambda>c. c_code c = r_country movie_data) (countries (working db)))
              = Inr found"
    and cd: "(case found of Some c \<Rightarrow> (c, db) | None \<Rightarrow> add_flush_country (r_country movie_data) db)
              = (country, db1)"
    and cm: "country \<in> set (countries (working db1))"
    and p1: "distinct (map c_code (countries (working db1)))"
      "committed db1 = committed db" "movies (working db1) = movies (working db)"
      "genres (working db1) = genres (working db)" "actors (working db1) = actors (working db)"
      "languages (working db1) = languages (working db)"
    by blast
  have "distinct (map rel_name (select_related GenreModel (working db1)))"
    using u(3) p1(4) by simp
  from get_or_create_all_ok [OF this, of "r_genres movie_data"] obtain genres_list db2 where
    g: "get_or_create_all db1 GenreModel (r_genres movie_data) = (Inr genres_list, db2)"
    and p2: "distinct (map rel_name (select_related GenreModel (working db2)))"
      "committed db2 = committed db1" "movies (working db2) = movies (working db1)"
      "countries (working db2) = countries (working db1)"
      "\<forall>model'. model' \<noteq> GenreModel \<longrightarrow>
              select_related model' (working db2) = select_related model' (working db1)"
    by blast
  have f2: "actors (working db2) = actors (working db1)"
    "languages (working db2) = languages (working db1)"
    using p2(5) [rule_format, of ActorModel] p2(5) [rule_format, of LanguageModel] by simp_all
  have "distinct (map rel_name (select_related ActorModel (working db2)))"
    using u(4) p1(5) f2 by simp
  from get_or_create_all_ok [OF this, of "r_actors movie_data"] obtain actors_list db3 where
    a: "get_or_create_all db2 ActorModel (r_actors movie_data) = (Inr actors_list, db3)"
    and p3: "distinct (map rel_name (select_related ActorModel (working db3)))"
      "committed db3 = committed db2" "movies (working db3) = movies (working db2)"
      "countries (working db3) = countries (working db2)"
      "\<forall>model'. model' \<noteq> ActorModel \<longrightarrow>
              select_related model' (working db3) = select_related model' (working db2)"
    by blast
  have f3: "genres (working db3) = genres (working db2)"
    "languages (working db3) = languages (working db2)"
    using p3(5) [rule_format, of GenreModel] p3(5) [rule_format, of LanguageModel] by simp_all
  have "distinct (map rel_name (select_related LanguageModel (working db3)))"
    using u(5) p1(6) f2 f3 by simp
  from get_or_create_all_ok [OF this, of "r_languages movie_data"] obtain languages_list db4 where
    l: "get_or_create_all db3 LanguageModel (r_languages movie_data) = (Inr languages_list, db4)"
    and p4: "distinct (map rel_name (select_related LanguageModel (working db4)))"
      "committed db4 = committed db3" "movies (working db4) = movies (working db3)"
      "countries (working db4) = countries (working db3)"
      "\<forall>model'. model' \<noteq> LanguageModel \<longrightarrow>
              select_related model' (working db4) = select_related model' (working db3)"
    by blast
  have f4: "genres (working db4) = genres (working db3)"
    "actors (working db4) = actors (working db3)"
    using p4(5) [rule_format, of GenreModel] p4(5) [rule_format, of ActorModel] by simp_all
  define row where "row =
     \<lparr>m_id = assigned_id (map m_id (movies (working db4))),
      m_name = Some (r_name movie_data), m_date = Some (r_date movie_data),
      m_score = Some (r_score movie_data), m_overview = Some (r_overview movie_data),
      m_status = Some (enum_value (r_status movie_data)),
      m_budget = Some (r_budget movie_data), m_revenue = Some (r_revenue movie_data),
      m_country_id = c_id country, m_genre_ids = map rel_id genres_list,
      m_actor_ids = map rel_id actors_list, m_language_ids = map rel_id languages_list\<rparr>"
  define db5 where "db5 = commit (add_movie row db4)"
  have ms4: "movies (working db4) = movies (working db)"
    using p1(3) p2(3) p3(3) p4(3) by simp
  have fresh: "m_id row \<notin> m_id ` set (movies (working db))"
    using assigned_id_fresh [of "map m_id (movies (working db))"] by (simp add: row_def ms4)
  have w5: "working db5 = (working db4)\<lparr>movies := movies (working db) @ [row]\<rparr>"
    "committed db5 = working db5"
    by (simp_all add: db5_def commit_def add_movie_def ms4)
  have "filter (\<lambda>m. m_id m = m_id row) (movies (working db5)) = [row]"
    using filter_key_absent [OF fresh] by (simp add: w5)
  then have fetch: "get_movie_by_id (m_id row) db5 = Inr (Some (load_relationships (working db5) row))"
    by (simp add: get_movie_by_id_def)
  have run: "create_movie movie_data db =
               (Inr (HTTP_201_CREATED, Some (load_relationships (working db5) row)), db5)"
    using fetch unfolding create_movie_def q row_def db5_def
    by (simp add: found cd g a l Let_def)
  have key: "(Some (r_name movie_data), Some (r_date movie_data)) \<notin> movie_key ` set (movies (working db))"
    using assms(2) by (auto simp: movie_key_def)
  have k5: "distinct (filter (\<lambda>k. fst k \<noteq> None \<and> snd k \<noteq> None) (map movie_key (movies (working db5))))"
    using u(1) key by (auto simp: w5 movie_key_def row_def)
  have c5: "distinct (map c_code (countries (working db5)))"
    using p1(1) p2(4) p3(4) p4(4) by (simp add: w5)
  have g5: "distinct (map rel_name (genres (working db5)))"
    using p2(1) f3 f4 by (simp add: w5)
  have a5: "distinct (map rel_name (actors (working db5)))"
    using p3(1) f4 by (simp add: w5)
  have l5: "distinct (map rel_name (languages (working db5)))"
    using p4(1) by (simp add: w5)
  from k5 c5 g5 a5 l5 have uk: "unique_keys (working db5)"
    by (simp add: unique_keys_def)
  have fields: "m_name row = Some (r_name movie_data)" "m_date row = Some (r_date movie_data)"
    "m_score row = Some (r_score movie_data)" "m_overview row = Some (r_overview movie_data)"
    "m_status row = Some (enum_value (r_status movie_data))"
    "m_budget row = Some (r_budget movie_data)" "m_revenue row = Some (r_revenue movie_data)"
    by (simp_all add: row_def)
  have cs5: "countries (working db5) = countries (working db1)"
    using p2(4) p3(4) p4(4) by (simp add: w5)
  have "find (\<lambda>c. c_id c = c_id country) (countries (working db5)) \<noteq> None"
    using cm by (auto simp: cs5 find_None_iff)
  then have dc: "detail_complete (working db5) row"
    by (simp add: detail_complete_iff row_def)
  from run w5 uk dc fresh fields show ?thesis
    by (intro exI [of _ row] exI [of _ db5]) simp
qed

text \<open>
  Claim C2. On a store whose natural keys are unique, a create request whose name and date
  are those of a stored movie is rejected with 409 and the store is left as it is,
  whatever the other fields of the request; a request whose name and date no stored movie
  has succeeds with 201, the new movie holding the fields of the request, and on the store
  it commits every further request with that name and date is rejected with 409.
\<close>

theorem create_movie_conflict:
  assumes "unique_keys t"
  shows "((\<exists>m \<in> set (movies t).
             m_name m = Some (r_name movie_data) \<and> m_date m = Some (r_date movie_data)) \<longrightarrow>
          serve (create_movie movie_data) t =
            (Inl (HTTPException HTTP_409_CONFLICT
                   (MovieAlreadyExists (r_name movie_data) (r_date movie_data))), t)) \<and>
         (\<not> (\<exists>m \<in> set (movies t).
             m_name m = Some (r_name movie_data) \<and> m_date m = Some (r_date movie_data)) \<longrightarrow>
          (\<exists>d t'.
             serve (create_movie movie_data) t = (Inr (HTTP_201_CREATED, Some d), t') \<and>
             movies t' = movies t @ [d_movie d] \<and>
             m_name (d_movie d) = Some (r_name movie_data) \<and>
             m_date (d_movie d) = Some (r_date movie_data) \<and>
             m_score (d_movie d) = Some (r_score movie_data) \<and>
             m_overview (d_movie d) = Some (r_overview movie_data) \<and>
             m_status (d_movie d) = Some (enum_value (r_status movie_data)) \<and>
             m_budget (d_movie d) = Some (r_budget movie_data) \<and>
             m_revenue (d_movie d) = Some (r_revenue movie_data) \<and>
             unique_keys t' \<and>
             (\<forall>other. r_name other = r_name movie_data \<and> r_date other = r_date movie_data \<longrightarrow>
                serve (create_movie other) t' =
                  (Inl (HTTPException HTTP_409_CONFLICT
                         (MovieAlreadyExists (r_name movie_data) (r_date movie_data))), t'))))"
proof (intro conjI impI)
  assume "\<exists>m \<in> set (movies t).
             m_name m = Some (r_name movie_data) \<and> m_date m = Some (r_date movie_data)"
  then obtain m where m: "m \<in> set (movies (working (open_session t)))"
    "m_name m = Some (r_name movie_data)" "m_date m = Some (r_date movie_data)"
    by (auto simp: open_session_def)
  have u: "unique_keys (working (open_session t))"
    using assms by (simp add: open_session_def)
  from create_movie_conflict_session [OF u m]
  show "serve (create_movie movie_data) t =
            (Inl (HTTPException HTTP_409_CONFLICT
                   (MovieAlreadyExists (r_name movie_data) (r_date movie_data))), t)"
    by (simp add: serve_def open_session_def)
next
  assume "\<not> (\<exists>m \<in> set (movies t).
             m_name m = Some (r_name movie_data) \<and> m_date m = Some (r_date movie_data))"
  then have none: "\<not> (\<exists>m \<in> set (movies (working (open_session t))).
             m_name m = Some (r_name movie_data) \<and> m_date m = Some (r_date movie_data))"
    by (simp add: open_session_def)
  have u: "unique_keys (working (open_session t))"
    using assms by (simp add: open_session_def)
  from create_movie_success_session [OF u none] obtain row db' where
    run: "create_movie movie_data (open_session t) =
             (Inr (HTTP_201_CREATED, Some (load_relationships (working db') row)), db')"
    and st: "committed db' = working db'" "movies (working db') = movies t @ [row]"
      "unique_keys (working db')"
    and fields: "m_name row = Some (r_name movie_data)" "m_date row = Some (r_date movie_data)"
      "m_score row = Some (r_score movie_data)" "m_overview row = Some (r_overview movie_data)"
      "m_status row = Some (enum_value (r_status movie_data))"
      "m_budget row = Some (r_budget movie_data)" "m_revenue row = Some (r_revenue movie_data)"
    by (auto simp: open_session_def)
  let ?t' = "working db'"
  let ?d = "load_relationships ?t' row"
  have served: "serve (create_movie movie_data) t = (Inr (HTTP_201_CREATED, Some ?d), ?t')"
    by (simp add: serve_def run st(1))
  have row: "d_movie ?d = row" by (simp add: load_relationships_def)
  have again: "serve (create_movie other) ?t' =
                  (Inl (HTTPException HTTP_409_CONFLICT
                         (MovieAlreadyExists (r_name movie_data) (r_date movie_data))), ?t')"
    if same: "r_name other = r_name movie_data \<and> r_date other = r_date movie_data" for other
  proof -
    have u': "unique_keys (working (open_session ?t'))"
      using st(3) by (simp add: open_session_def)
    have mem: "row \<in> set (movies (working (open_session ?t')))"
      by (simp add: open_session_def st(2))
    from create_movie_conflict_session [OF u' mem, of other] fields(1,2) same
    show ?thesis by (simp add: serve_def open_session_def)
  qed
  from served row st(2,3) fields again
  show "\<exists>d t'.
             serve (create_movie movie_data) t = (Inr (HTTP_201_CREATED, Some d), t') \<and>
             movies t' = movies t @ [d_movie d] \<and>
             m_name (d_movie d) = Some (r_name movie_data) \<and>
             m_date (d_movie d) = Some (r_date movie_data) \<and>
             m_score (d_movie d) = Some (r_score movie_data) \<and>
             m_overview (d_movie d) = Some (r_overview movie_data) \<and>
             m_status (d_movie d) = Some (enum_value (r_status movie_data)) \<and>
             m_budget (d_movie d) = Some (r_budget movie_data) \<and>
             m_revenue (d_movie d) = Some (r_revenue movie_data) \<and>
             unique_keys t' \<and>
             (\<forall>other. r_name other = r_name movie_data \<and> r_date other = r_date movie_data \<longrightarrow>
                serve (create_movie other) t' =
                  (Inl (HTTPException HTTP_409_CONFLICT
                         (MovieAlreadyExists (r_name movie_data) (r_date movie_data))), t'))"
    by (intro exI [of _ ?d] exI [of _ ?t']) simp
qed

lemma example_catalog_unique: "unique_keys example_catalog"
  by (simp add: unique_keys_def example_catalog_def example_movie_def movie_key_def)

theorem create_movie_conflict_witness:
  "unique_keys example_catalog \<and>
   example_movie 2 ''Dune'' 738085 \<in> set (movies example_catalog) \<and>
   m_name (example_movie 2 ''Dune'' 738085) = Some (r_name example_request) \<and>
   m_date (example_movie 2 ''Dune'' 738085) = Some (r_date example_request) \<and>
   serve (create_movie example_request) example_catalog =
     (Inl (HTTPException HTTP_409_CONFLICT (MovieAlreadyExists ''Dune'' 738085)), example_catalog) \<and>
   (\<exists>d t'.
      serve (create_movie (example_request\<lparr>r_name := ''Arrival''\<rparr>)) example_catalog =
        (Inr (HTTP_201_CREATED, Some d), t') \<and>
      movies t' = movies example_catalog @ [d_movie d] \<and>
      m_name (d_movie d) = Some ''Arrival'' \<and>
      serve (create_movie (example_request\<lparr>r_name := ''Arrival'', r_score := 99\<rparr>)) t' =
        (Inl (HTTPException HTTP_409_CONFLICT (MovieAlreadyExists ''Arrival'' 738085)), t'))"
proof -
  have mem: "example_movie 2 ''Dune'' 738085 \<in> set (movies example_catalog)"
    by (simp add: example_catalog_def)
  have key: "m_name (example_movie 2 ''Dune'' 738085) = Some (r_name example_request)"
    "m_date (example_movie 2 ''Dune'' 738085) = Some (r_date example_request)"
    by (simp_all add: example_movie_def example_request_def)
  have dup: "\<exists>m \<in> set (movies example_catalog).
               m_name m = Some (r_name example_request) \<and> m_date m = Some (r_date example_request)"
    using mem key by blast
  from create_movie_conflict [OF example_catalog_unique, of example_request] dup
  have conflict: "serve (create_movie example_request) example_catalog =
     (Inl (HTTPException HTTP_409_CONFLICT (MovieAlreadyExists ''Dune'' 738085)), example_catalog)"
    by (simp add: example_request_def)
  have fresh: "\<not> (\<exists>m \<in> set (movies example_catalog).
               m_name m = Some (r_name (example_request\<lparr>r_name := ''Arrival''\<rparr>)) \<and>
               m_date m = Some (r_date (example_request\<lparr>r_name := ''Arrival''\<rparr>)))"
    by (simp add: example_catalog_def example_movie_def)
  from create_movie_conflict [OF example_catalog_unique, of "example_request\<lparr>r_name := ''Arrival''\<rparr>"] fresh
  obtain d t' where ok:
    "serve (create_movie (example_request\<lparr>r_name := ''Arrival''\<rparr>)) example_catalog =
        (Inr (HTTP_201_CREATED, Some d), t')"
    "movies t' = movies example_catalog @ [d_movie d]"
    "m_name (d_movie d) = Some ''Arrival''"
    "\<forall>other. r_name other = ''Arrival'' \<and> r_date other = r_date example_request \<longrightarrow>
        serve (create_movie other) t' =
          (Inl (HTTPException HTTP_409_CONFLICT (MovieAlreadyExists ''Arrival'' (r_date example_request))), t')"
    by auto
  from ok(4) have second:
    "serve (create_movie (example_request\<lparr>r_name := ''Arrival'', r_score := 99\<rparr>)) t' =
        (Inl (HTTPException HTTP_409_CONFLICT (MovieAlreadyExists ''Arrival'' 738085)), t')"
    by (simp add: example_request_def)
  from example_catalog_unique mem key conflict ok(1-3) second show ?thesis by blast
qed

text \<open>
  The movie a successful create request returns is a complete detail, so the validation of
  the response against \<^verbatim>\<open>MovieDetailResponse\<close> succeeds.
\<close>

lemma create_movie_response_valid:
  assumes "unique_keys t"
    and "\<not> (\<exists>m \<in> set (movies t).
              m_name m = Some (r_name movie_data) \<and> m_date m = Some (r_date movie_data))"
  shows "\<exists>d t'. serve (create_movie movie_data) t = (Inr (HTTP_201_CREATED, Some d), t') \<and>
           MovieDetailResponse_from d \<noteq> None"
proof -
  have u: "unique_keys (working (open_session t))"
    using assms(1) by (simp add: open_session_def)
  have none: "\<not> (\<exists>m \<in> set (movies (working (open_session t))).
             m_name m = Some (r_name movie_data) \<and> m_date m = Some (r_date movie_data))"
    using assms(2) by (simp add: open_session_def)
  from create_movie_success_session [OF u none] obtain row db' where
    run: "create_movie movie_data (open_session t) =
             (Inr (HTTP_201_CREATED, Some (load_relationships (working db') row)), db')"
    and dc: "detail_complete (working db') row"
    by blast
  from run have "serve (create_movie movie_data) t =
      (Inr (HTTP_201_CREATED, Some (load_relationships (working db') row)), committed db')"
    by (simp add: serve_def)
  with dc show ?thesis by (auto simp: detail_complete_def)
qed

subsection \<open>The update endpoint\<close>

text \<open>
  The outcome of an update request: 404 for an unknown identifier; for a stored movie the
  commit of the updated row when the store admits it, an integrity error and an unchanged
  store otherwise.
\<close>

lemma apply_updates_id [simp]: "m_id (apply_updates movie_data m) = m_id m"
  by (simp add: apply_updates_def)

lemma update_movie_absent:
  assumes "movie_id \<notin> m_id ` set (movies t)"
  shows "serve (update_movie admits movie_id movie_data) t =
           (Inl (HTTPException HTTP_404_NOT_FOUND MovieNotFound), t)"
  using filter_id_absent [OF assms]
  by (simp add: serve_def update_movie_def open_session_def)

lemma update_movie_present:
  assumes "distinct (map m_id (movies t))" and "m \<in> set (movies t)"
  shows "serve (update_movie admits (m_id m) movie_data) t =
           (if admits (updated_tables movie_data m t)
            then (Inr (HTTP_200_OK, \<lparr>detail_text = ''Movie updated successfully.''\<rparr>),
                  updated_tables movie_data m t)
            else (Inl IntegrityError, t))"
  using filter_id_unique [OF assms]
  by (simp add: serve_def update_movie_def open_session_def db_update_def commit_def
      updated_tables_def Let_def)












lemma update_movie_not_admitted:
  assumes "distinct (map m_id (movies t))" and "m \<in> set (movies t)"
    and "\<not> admits (updated_tables movie_data m t)"
  shows "serve (update_movie admits (m_id m) movie_data) t = (Inl IntegrityError, t)"
  using update_movie_present [OF assms(1,2), of admits movie_data] assms(3) by simp








end
